theory Spec2Isabelle
  imports Complex_Main
begin

section \<open>Client-side end-of-life recalculation (frontend/lib/eol-recalc.ts)\<close>

text \<open>
  The module recomputes the end-of-life (EOL) phase of a life-cycle analysis under another
  disposal scenario and patches the Sankey data: the EOL phase value, the total, the recorded
  scenario name and the value of the edge from node \<open>eol\<close> to node \<open>total\<close>.

  The function is embedded twice. The first embedding reads the source's arithmetic as exact:
  a JavaScript \<open>number\<close> is a \<^typ>\<open>real\<close>, and \<open>+\<close>, \<open>*\<close> and \<open>/\<close> do not round. It
  decides everything that does not depend on how a sum or a product is rounded: which mix a
  selector reads, which fields are kept, what a second call does. The second embedding
  (\<open>recalculateEOL_d\<close>, further down) rounds every operation to the nearest IEEE-754
  double, as the source does; it decides which numbers are stored: at a tie of the fourth
  decimal the two embeddings can differ by one unit, and at magnitudes where a double no
  longer resolves four decimals by more.
\<close>

subsection \<open>Numbers\<close>

text \<open>
  \<open>Math.round(x)\<close> is the integer nearest to \<open>x\<close>; of two equally near integers it is the
  one closer to plus infinity. \<open>Math.abs\<close> is the absolute value.
\<close>

definition Math_round :: "real \<Rightarrow> real" where
  "Math_round x = of_int \<lfloor>x + 1 / 2\<rfloor>"

definition Math_abs :: "real \<Rightarrow> real" where
  "Math_abs x = \<bar>x\<bar>"

subsection \<open>Types (the shape of the backend's response)\<close>

record SankeyNode =
  node_id :: string
  label :: string
  phase :: string

record SankeyLink =
  source :: string
  target :: string
  link_value :: real

record Breakdown =
  materials :: real
  manufacturing :: real
  transport :: real
  use :: real
  end_of_life :: real

record Summary =
  total_co2e_kg :: real
  breakdown :: Breakdown
  weight_kg :: real
  category :: string
  eol_scenario :: string

record MaterialDetail =
  name :: string
  fraction :: real
  detail_weight_kg :: real
  impact_kg_co2e :: real
  factor :: real

text \<open>
  A \<open>Record<string, number>\<close> is the list of its own enumerable properties, in the order
  in which \<open>Object.entries\<close> and \<open>Object.values\<close> enumerate them.
\<close>

type_synonym number_record = "(string \<times> real) list"

record SankeyData =
  nodes :: "SankeyNode list"
  links :: "SankeyLink list"
  summary :: Summary
  per_material_weights :: number_record
  material_details :: "MaterialDetail list"

subsection \<open>EOL constants\<close>

definition EOL_METHOD_FACTORS :: number_record where
  "EOL_METHOD_FACTORS =
     [(''landfill'', 0.5), (''incineration'', 1.0), (''recycling'', - 0.3)]"

definition EOL_SCENARIOS :: "(string \<times> number_record) list" where
  "EOL_SCENARIOS =
     [(''baseline'', [(''landfill'', 0.6), (''incineration'', 0.2), (''recycling'', 0.2)]),
      (''best_case'', [(''landfill'', 0.1), (''incineration'', 0.1), (''recycling'', 0.8)]),
      (''worst_case'', [(''landfill'', 0.8), (''incineration'', 0.2), (''recycling'', 0.0)])]"

subsection \<open>Reading a property of an object literal\<close>

text \<open>
  \<open>EOL_SCENARIOS\<close> is an object literal, so its prototype is \<open>Object.prototype\<close>, and the
  read \<open>EOL_SCENARIOS[scenario]\<close> follows the prototype chain: for a name that is not an own
  property but is a property of \<open>Object.prototype\<close> it yields that inherited member
  (a function, or for \<open>__proto__\<close> the prototype object itself), which is neither \<open>null\<close>
  nor \<open>undefined\<close>, and which has no own enumerable property. Only a name found nowhere on
  the chain reads as \<open>undefined\<close>.
\<close>

definition Object_prototype :: "string list" where
  "Object_prototype =
     [''constructor'', ''__defineGetter__'', ''__defineSetter__'', ''hasOwnProperty'',
      ''__lookupGetter__'', ''__lookupSetter__'', ''isPrototypeOf'', ''propertyIsEnumerable'',
      ''toString'', ''valueOf'', ''__proto__'', ''toLocaleString'']"

datatype js_object = Mix number_record | Builtin

definition read_scenario :: "string \<Rightarrow> js_object option" where
  "read_scenario key =
     (case map_of EOL_SCENARIOS key of
        Some m \<Rightarrow> Some (Mix m)
      | None \<Rightarrow> if key \<in> set Object_prototype then Some Builtin else None)"

fun Object_entries :: "js_object \<Rightarrow> (string \<times> real) list" where
  "Object_entries (Mix m) = m"
| "Object_entries Builtin = []"

definition Object_values :: "number_record \<Rightarrow> real list" where
  "Object_values r = map snd r"

subsection \<open>The recalculation function\<close>

text \<open>\<open>const mix = EOL_SCENARIOS[scenario] ?? EOL_SCENARIOS.baseline\<close>\<close>

definition mix :: "string \<Rightarrow> js_object" where
  "mix scenario =
     (case read_scenario scenario of
        Some m \<Rightarrow> m
      | None \<Rightarrow> (case read_scenario ''baseline'' of Some b \<Rightarrow> b | None \<Rightarrow> Builtin))"

text \<open>
  \<open>EOL_METHOD_FACTORS[method] ?? 0\<close>. The method names that reach this read are the keys of
  a scenario's mix, which are all own properties of the factor table (lemma
  \<open>mix_methods_resolve\<close> below); a name absent from the table reads as \<open>undefined\<close> and gives 0.
  A name inherited from \<open>Object.prototype\<close> would read as a function and make the product
  \<open>NaN\<close>; no mix has such a key, and the model does not cover it.
\<close>

definition method_factor_or_0 :: "string \<Rightarrow> real" where
  "method_factor_or_0 method =
     (case map_of EOL_METHOD_FACTORS method of Some f \<Rightarrow> f | None \<Rightarrow> 0)"

text \<open>The \<open>reduce\<close> of lines 90 to 93, as a function of the entries it runs over.\<close>

definition blend :: "(string \<times> real) list \<Rightarrow> real" where
  "blend entries =
     foldl (\<lambda>sum (method, fraction). sum + fraction * method_factor_or_0 method) 0 entries"

definition blendedFactor :: "string \<Rightarrow> real" where
  "blendedFactor scenario = blend (Object_entries (mix scenario))"

definition newEol :: "SankeyData \<Rightarrow> string \<Rightarrow> real" where
  "newEol original scenario =
     foldl (\<lambda>sum weight. sum + weight * blendedFactor scenario) 0
       (Object_values (per_material_weights original))"

definition newTotal :: "SankeyData \<Rightarrow> string \<Rightarrow> real" where
  "newTotal original scenario =
     (let b = breakdown (summary original)
      in materials b + manufacturing b + transport b + use b + newEol original scenario)"

definition newLinks :: "SankeyData \<Rightarrow> string \<Rightarrow> SankeyLink list" where
  "newLinks original scenario =
     map (\<lambda>link.
            if source link = ''eol'' \<and> target link = ''total''
            then link\<lparr>link_value := Math_round (Math_abs (newEol original scenario) * 10000) / 10000\<rparr>
            else link)
         (links original)"

definition newSummary :: "SankeyData \<Rightarrow> string \<Rightarrow> Summary" where
  "newSummary original scenario =
     (summary original)
       \<lparr>total_co2e_kg := Math_round (newTotal original scenario * 10000) / 10000,
        eol_scenario := scenario,
        breakdown := (breakdown (summary original))
           \<lparr>end_of_life := Math_round (newEol original scenario * 10000) / 10000\<rparr>\<rparr>"

definition recalculateEOL :: "SankeyData \<Rightarrow> string \<Rightarrow> SankeyData" where
  "recalculateEOL original scenario =
     original\<lparr>links := newLinks original scenario, summary := newSummary original scenario\<rparr>"

text \<open>
  The three emitted numbers are each rounded by the expression
  \<open>Math.round(x * 10000) / 10000\<close> (lines 108, 116 and 120).
\<close>

definition round4 :: "real \<Rightarrow> real" where
  "round4 x = Math_round (x * 10000) / 10000"

subsection \<open>What the specification says\<close>

text \<open>
  The specification's constant tables (section 6), as finite maps: the disposal-method
  factors and the three predefined scenarios.
\<close>

definition spec_method_factor :: "string \<rightharpoonup> real" where
  "spec_method_factor =
     [''landfill'' \<mapsto> 5 / 10, ''incineration'' \<mapsto> 1, ''recycling'' \<mapsto> - (3 / 10)]"

definition spec_scenario :: "string \<rightharpoonup> (string \<rightharpoonup> real)" where
  "spec_scenario =
     [''baseline'' \<mapsto>
        [''landfill'' \<mapsto> 6 / 10, ''incineration'' \<mapsto> 2 / 10, ''recycling'' \<mapsto> 2 / 10],
      ''best_case'' \<mapsto>
        [''landfill'' \<mapsto> 1 / 10, ''incineration'' \<mapsto> 1 / 10, ''recycling'' \<mapsto> 8 / 10],
      ''worst_case'' \<mapsto>
        [''landfill'' \<mapsto> 8 / 10, ''incineration'' \<mapsto> 2 / 10, ''recycling'' \<mapsto> 0]]"

text \<open>
  The specification's blended factor of a disposal mix (section 4.2): the sum over the
  methods of the mix fraction times the method's factor. It is only meant for mixes whose
  methods are all in the factor table.
\<close>

definition spec_blended_factor :: "(string \<times> real) list \<Rightarrow> real" where
  "spec_blended_factor m = (\<Sum>(method, fr)\<leftarrow>m. fr * the (spec_method_factor method))"

text \<open>
  The specification's numeric policy (section 4.4): four decimals, a tie rounded away from
  zero, written as the sign times the half-up rounding of the magnitude.
\<close>

definition spec_round_half_away4 :: "real \<Rightarrow> real" where
  "spec_round_half_away4 x = sgn x * of_int \<lfloor>\<bar>x\<bar> * 10000 + 1 / 2\<rfloor> / 10000"

subsection \<open>Example results\<close>

text \<open>
  The specification's concrete example (section 8): a product of 1 kg made of one material
  with extraction factor 2, analysed under the baseline scenario.
\<close>

definition example_result :: SankeyData where
  "example_result =
     \<lparr>nodes = [\<lparr>node_id = ''eol'', label = ''End of Life'', phase = ''eol''\<rparr>,
               \<lparr>node_id = ''total'', label = ''Total'', phase = ''total''\<rparr>],
      links = [\<lparr>source = ''use'', target = ''eol'', link_value = 0.5\<rparr>,
               \<lparr>source = ''eol'', target = ''total'', link_value = 0.44\<rparr>],
      summary =
        \<lparr>total_co2e_kg = 4.44,
         breakdown = \<lparr>materials = 2, manufacturing = 1, transport = 0.5, use = 0.5,
                        end_of_life = 0.44\<rparr>,
         weight_kg = 1, category = ''electronics'', eol_scenario = ''baseline''\<rparr>,
      per_material_weights = [(''steel'', 1)],
      material_details =
        [\<lparr>name = ''steel'', fraction = 1, detail_weight_kg = 1, impact_kg_co2e = 2,
          factor = 2\<rparr>]\<rparr>"

text \<open>A light product: 5 g of one material.\<close>

definition light_result :: SankeyData where
  "light_result =
     \<lparr>nodes = [\<lparr>node_id = ''eol'', label = ''End of Life'', phase = ''eol''\<rparr>,
               \<lparr>node_id = ''total'', label = ''Total'', phase = ''total''\<rparr>],
      links = [\<lparr>source = ''eol'', target = ''total'', link_value = 0.0022\<rparr>],
      summary =
        \<lparr>total_co2e_kg = 0.0222,
         breakdown = \<lparr>materials = 0.01, manufacturing = 0.005, transport = 0.0025,
                        use = 0.0025, end_of_life = 0.0022\<rparr>,
         weight_kg = 0.005, category = ''packaging'', eol_scenario = ''baseline''\<rparr>,
      per_material_weights = [(''pet'', 0.005)],
      material_details =
        [\<lparr>name = ''pet'', fraction = 1, detail_weight_kg = 0.005, impact_kg_co2e = 0.01,
          factor = 2\<rparr>]\<rparr>"

section \<open>The same function in double precision\<close>

text \<open>
  The definitions above read the source's \<open>+\<close>, \<open>*\<close> and \<open>/\<close> as exact. The source
  computes with IEEE-754 doubles: every number read from a table or from the input is the
  double nearest to the decimal written there, and every \<open>+\<close>, \<open>*\<close> and \<open>/\<close> rounds its
  exact result to the nearest double, a tie going to the even significand. The definitions
  of this section repeat the function with that arithmetic. A double is kept as the real
  number it denotes. Overflow to an infinity, \<open>NaN\<close> and the sign of zero are not modelled:
  a result of magnitude \<open>2^1024\<close> or more is rounded as if the exponent had no upper bound.
\<close>

subsection \<open>Rounding to the nearest double\<close>

text \<open>The nearest integer, a tie going to the even one.\<close>

definition round_to_even :: "real \<Rightarrow> int" where
  "round_to_even y =
     (let f = \<lfloor>y\<rfloor>
      in if y - of_int f < 1 / 2 then f
         else if 1 / 2 < y - of_int f then f + 1
         else if even f then f else f + 1)"

text \<open>
  The unit in the last place for a magnitude \<open>a\<close>: the power of two \<open>u\<close> with
  \<open>2^52 u \<le> a < 2^53 u\<close>, found by halving or doubling from 1, but never below
  \<open>2^-1074\<close> (the subnormal range) nor above \<open>2^971\<close> (the largest finite binade).
\<close>

fun ulp_down :: "nat \<Rightarrow> real \<Rightarrow> real \<Rightarrow> real" where
  "ulp_down 0 u a = u"
| "ulp_down (Suc n) u a = (if a < 2 ^ 52 * u then ulp_down n (u / 2) a else u)"

fun ulp_up :: "nat \<Rightarrow> real \<Rightarrow> real \<Rightarrow> real" where
  "ulp_up 0 u a = u"
| "ulp_up (Suc n) u a = (if 2 ^ 53 * u \<le> a then ulp_up n (2 * u) a else u)"

definition ulp :: "real \<Rightarrow> real" where
  "ulp a = (if 2 ^ 53 \<le> a then ulp_up 971 1 a else ulp_down 1074 1 a)"

definition fl :: "real \<Rightarrow> real" where
  "fl x = of_int (round_to_even (x / ulp \<bar>x\<bar>)) * ulp \<bar>x\<bar>"

text \<open>The three operations of the source, on doubles.\<close>

definition fadd :: "real \<Rightarrow> real \<Rightarrow> real" where
  "fadd a b = fl (a + b)"

definition fmul :: "real \<Rightarrow> real \<Rightarrow> real" where
  "fmul a b = fl (a * b)"

definition fdiv :: "real \<Rightarrow> real \<Rightarrow> real" where
  "fdiv a b = fl (a / b)"

subsection \<open>The recalculation function on doubles\<close>

text \<open>
  Lines 90 to 93. The fraction and the factor are read from the tables, so each is converted
  to a double by \<open>fl\<close>; the running sum is a double already.
\<close>

definition blend_d :: "(string \<times> real) list \<Rightarrow> real" where
  "blend_d entries =
     foldl (\<lambda>sum (method, fraction).
              fadd sum (fmul (fl fraction) (fl (method_factor_or_0 method))))
       0 entries"

definition blendedFactor_d :: "string \<Rightarrow> real" where
  "blendedFactor_d scenario = blend_d (Object_entries (mix scenario))"

text \<open>Lines 96 to 99. A weight is read from the input.\<close>

definition newEol_d :: "SankeyData \<Rightarrow> string \<Rightarrow> real" where
  "newEol_d original scenario =
     foldl (\<lambda>sum weight. fadd sum (fmul (fl weight) (blendedFactor_d scenario))) 0
       (Object_values (per_material_weights original))"

text \<open>Lines 102 and 103. The sum associates to the left.\<close>

definition newTotal_d :: "SankeyData \<Rightarrow> string \<Rightarrow> real" where
  "newTotal_d original scenario =
     (let b = breakdown (summary original)
      in fadd (fadd (fadd (fadd (fl (materials b)) (fl (manufacturing b))) (fl (transport b)))
                 (fl (use b)))
           (newEol_d original scenario))"

text \<open>
  \<open>Math.round(x * 10000) / 10000\<close>: the product and the quotient round to a double,
  \<open>Math.round\<close> itself is exact. \<open>units4_d\<close> is the integer that \<open>Math.round\<close> returns,
  the number of units of the fourth decimal.
\<close>

definition units4_d :: "real \<Rightarrow> real" where
  "units4_d x = Math_round (fmul x 10000)"

definition round4_d :: "real \<Rightarrow> real" where
  "round4_d x = fdiv (Math_round (fmul x 10000)) 10000"

definition newLinks_d :: "SankeyData \<Rightarrow> string \<Rightarrow> SankeyLink list" where
  "newLinks_d original scenario =
     map (\<lambda>link.
            if source link = ''eol'' \<and> target link = ''total''
            then link\<lparr>link_value := round4_d (Math_abs (newEol_d original scenario))\<rparr>
            else link)
         (links original)"

definition newSummary_d :: "SankeyData \<Rightarrow> string \<Rightarrow> Summary" where
  "newSummary_d original scenario =
     (summary original)
       \<lparr>total_co2e_kg := round4_d (newTotal_d original scenario),
        eol_scenario := scenario,
        breakdown := (breakdown (summary original))
           \<lparr>end_of_life := round4_d (newEol_d original scenario)\<rparr>\<rparr>"

definition recalculateEOL_d :: "SankeyData \<Rightarrow> string \<Rightarrow> SankeyData" where
  "recalculateEOL_d original scenario =
     original\<lparr>links := newLinks_d original scenario,
              summary := newSummary_d original scenario\<rparr>"




text \<open>
  The sum of the five phase values of a breakdown, added in doubles from left to right: the
  value of the expression \<open>materials + manufacturing + transport + use + end_of_life\<close>.
\<close>

definition breakdown_sum_d :: "Breakdown \<Rightarrow> real" where
  "breakdown_sum_d b =
     fadd (fadd (fadd (fadd (materials b) (manufacturing b)) (transport b)) (use b))
       (end_of_life b)"

subsection \<open>More example results\<close>

text \<open>
  A product of four materials weighing 0.765 kg together, with the phase values of the
  specification's example.
\<close>

definition four_result :: SankeyData where
  "four_result =
     \<lparr>nodes = [\<lparr>node_id = ''eol'', label = ''End of Life'', phase = ''eol''\<rparr>,
               \<lparr>node_id = ''total'', label = ''Total'', phase = ''total''\<rparr>],
      links = [\<lparr>source = ''use'', target = ''eol'', link_value = 0.5\<rparr>,
               \<lparr>source = ''eol'', target = ''total'', link_value = 0.3366\<rparr>],
      summary =
        \<lparr>total_co2e_kg = 4.3366,
         breakdown = \<lparr>materials = 2, manufacturing = 1, transport = 0.5, use = 0.5,
                        end_of_life = 0.3366\<rparr>,
         weight_kg = 0.765, category = ''electronics'', eol_scenario = ''baseline''\<rparr>,
      per_material_weights =
        [(''steel'', 0.0918), (''aluminum'', 0.13), (''abs'', 0.5049), (''glass'', 0.0383)],
      material_details = []\<rparr>"

text \<open>The specification's example with a materials phase of 9.99935 instead of 2.\<close>

definition nine_result :: SankeyData where
  "nine_result =
     \<lparr>nodes = [\<lparr>node_id = ''eol'', label = ''End of Life'', phase = ''eol''\<rparr>,
               \<lparr>node_id = ''total'', label = ''Total'', phase = ''total''\<rparr>],
      links = [\<lparr>source = ''use'', target = ''eol'', link_value = 0.5\<rparr>,
               \<lparr>source = ''eol'', target = ''total'', link_value = 0.44\<rparr>],
      summary =
        \<lparr>total_co2e_kg = 12.4393,
         breakdown = \<lparr>materials = 9.99935, manufacturing = 1, transport = 0.5, use = 0.5,
                        end_of_life = 0.44\<rparr>,
         weight_kg = 1, category = ''electronics'', eol_scenario = ''baseline''\<rparr>,
      per_material_weights = [(''steel'', 1)],
      material_details = []\<rparr>"

text \<open>The specification's example with a materials phase of \<open>4 * 10^15\<close> instead of 2.\<close>

definition big_result :: SankeyData where
  "big_result =
     \<lparr>nodes = [\<lparr>node_id = ''eol'', label = ''End of Life'', phase = ''eol''\<rparr>,
               \<lparr>node_id = ''total'', label = ''Total'', phase = ''total''\<rparr>],
      links = [\<lparr>source = ''use'', target = ''eol'', link_value = 0.5\<rparr>,
               \<lparr>source = ''eol'', target = ''total'', link_value = 0.44\<rparr>],
      summary =
        \<lparr>total_co2e_kg = 4000000000000002.5,
         breakdown = \<lparr>materials = 4000000000000000, manufacturing = 1, transport = 0.5,
                        use = 0.5, end_of_life = 0.44\<rparr>,
         weight_kg = 1, category = ''electronics'', eol_scenario = ''baseline''\<rparr>,
      per_material_weights = [(''steel'', 1)],
      material_details = []\<rparr>"

section \<open>Properties\<close>

subsection \<open>The two folds as sums\<close>

lemma foldl_weights: "foldl (\<lambda>sum weight. sum + weight * c) a ws = a + sum_list ws * (c::real)"
  by (induction ws arbitrary: a) (simp_all add: algebra_simps)

lemma blend_sum: "blend es = (\<Sum>(method, fraction)\<leftarrow>es. fraction * method_factor_or_0 method)"
proof -
  have "foldl (\<lambda>sum (method, fraction). sum + fraction * method_factor_or_0 method) a es
      = a + (\<Sum>(method, fraction)\<leftarrow>es. fraction * method_factor_or_0 method)" for a
    by (induction es arbitrary: a) (auto simp: algebra_simps)
  then show ?thesis by (simp add: blend_def)
qed

subsection \<open>Which mix a scenario name selects\<close>

lemma mix_predefined: "map_of EOL_SCENARIOS s = Some m \<Longrightarrow> mix s = Mix m"
  by (simp add: mix_def read_scenario_def)

lemma mix_inherited:
  "map_of EOL_SCENARIOS s = None \<Longrightarrow> s \<in> set Object_prototype \<Longrightarrow> mix s = Builtin"
  by (simp add: mix_def read_scenario_def)

lemma read_baseline:
  "read_scenario ''baseline'' =
     Some (Mix [(''landfill'', 0.6), (''incineration'', 0.2), (''recycling'', 0.2)])"
  by (simp add: read_scenario_def EOL_SCENARIOS_def)

lemma mix_baseline:
  "mix ''baseline'' = Mix [(''landfill'', 0.6), (''incineration'', 0.2), (''recycling'', 0.2)]"
  by (simp add: mix_def read_baseline)

lemma mix_undefined:
  assumes "map_of EOL_SCENARIOS s = None" and "s \<notin> set Object_prototype"
  shows "mix s = mix ''baseline''"
proof -
  from assms have "read_scenario s = None"
    by (simp add: read_scenario_def)
  then have "mix s = Mix [(''landfill'', 0.6), (''incineration'', 0.2), (''recycling'', 0.2)]"
    by (simp add: mix_def read_baseline)
  then show ?thesis
    by (simp add: mix_baseline)
qed

lemma scenario_cases:
  "map_of EOL_SCENARIOS s = Some m \<Longrightarrow>
     (s = ''baseline'' \<and> m = [(''landfill'', 0.6), (''incineration'', 0.2), (''recycling'', 0.2)]) \<or>
     (s = ''best_case'' \<and> m = [(''landfill'', 0.1), (''incineration'', 0.1), (''recycling'', 0.8)]) \<or>
     (s = ''worst_case'' \<and> m = [(''landfill'', 0.8), (''incineration'', 0.2), (''recycling'', 0.0)])"
  by (auto simp: EOL_SCENARIOS_def split: if_splits)

lemma prototype_not_scenario: "s \<in> set Object_prototype \<Longrightarrow> map_of EOL_SCENARIOS s = None"
  by (auto simp: Object_prototype_def EOL_SCENARIOS_def)







subsection \<open>The blended factor of each scenario\<close>

lemma blendedFactor_baseline: "blendedFactor ''baseline'' = 0.44"
  by (simp add: blendedFactor_def mix_baseline blend_def method_factor_or_0_def
      EOL_METHOD_FACTORS_def)

lemma blendedFactor_best_case: "blendedFactor ''best_case'' = - 0.09"
  by (simp add: blendedFactor_def mix_def read_scenario_def EOL_SCENARIOS_def blend_def
      method_factor_or_0_def EOL_METHOD_FACTORS_def)

lemma blendedFactor_worst_case: "blendedFactor ''worst_case'' = 0.6"
  by (simp add: blendedFactor_def mix_def read_scenario_def EOL_SCENARIOS_def blend_def
      method_factor_or_0_def EOL_METHOD_FACTORS_def)

lemma blendedFactor_inherited: "s \<in> set Object_prototype \<Longrightarrow> blendedFactor s = 0"
  by (simp add: blendedFactor_def mix_inherited prototype_not_scenario blend_def)

lemma blendedFactor_undefined:
  "map_of EOL_SCENARIOS s = None \<Longrightarrow> s \<notin> set Object_prototype \<Longrightarrow>
   blendedFactor s = blendedFactor ''baseline''"
  by (simp add: blendedFactor_def mix_undefined)

lemma newEol_sum:
  "newEol r s = sum_list (Object_values (per_material_weights r)) * blendedFactor s"
  by (simp add: newEol_def foldl_weights)


subsection \<open>Rounding to four decimals\<close>

lemma round4_floor: "round4 x = of_int \<lfloor>x * 10000 + 1 / 2\<rfloor> / 10000"
  by (simp add: round4_def Math_round_def)

lemma round4_upper: "round4 x - x \<le> 1 / 20000"
proof -
  have "of_int \<lfloor>x * 10000 + 1 / 2\<rfloor> \<le> x * 10000 + 1 / 2"
    by (rule of_int_floor_le)
  then show ?thesis
    by (simp add: round4_floor field_simps)
qed

lemma round4_lower: "- (1 / 20000) < round4 x - x"
proof -
  have "x * 10000 + 1 / 2 < of_int \<lfloor>x * 10000 + 1 / 2\<rfloor> + 1"
    by linarith
  then show ?thesis
    by (simp add: round4_floor field_simps)
qed

lemma round4_shift: "round4 (x + of_int k / 10000) = round4 x + of_int k / 10000"
proof -
  have "(x + of_int k / 10000) * 10000 + 1 / 2 = (x * 10000 + 1 / 2) + of_int k"
    by (simp add: field_simps)
  then have "\<lfloor>(x + of_int k / 10000) * 10000 + 1 / 2\<rfloor> = \<lfloor>x * 10000 + 1 / 2\<rfloor> + k"
    by (simp only: floor_add_int)
  then show ?thesis
    by (simp add: round4_floor add_divide_distrib)
qed

lemma round4_nonneg: "0 \<le> x \<Longrightarrow> round4 x = spec_round_half_away4 x"
  by (cases "x = 0") (simp_all add: round4_floor spec_round_half_away4_def sgn_if)

lemma round4_negative:
  assumes "x < 0"
  shows "spec_round_half_away4 x =
     (if x * 10000 + 1 / 2 \<in> \<int> then round4 x - 1 / 10000 else round4 x)"
proof -
  define y where "y = x * 10000 + 1 / 2"
  have abs: "\<bar>x\<bar> * 10000 + 1 / 2 = - (y - 1)"
    using assms by (simp add: y_def)
  have "\<lfloor>- (y - 1)\<rfloor> = - \<lceil>y - 1\<rceil>"
    by (simp add: ceiling_def)
  also have "\<dots> = - (\<lceil>y\<rceil> - 1)"
    by simp
  finally have fl: "\<lfloor>\<bar>x\<bar> * 10000 + 1 / 2\<rfloor> = 1 - \<lceil>y\<rceil>"
    by (simp add: abs)
  have "sgn x = - 1"
    using assms by simp
  then have "spec_round_half_away4 x = - 1 * of_int (1 - \<lceil>y\<rceil>) / 10000"
    unfolding spec_round_half_away4_def fl by simp
  then have sg: "spec_round_half_away4 x = of_int (\<lceil>y\<rceil> - 1) / 10000"
    by simp
  have r: "round4 x = of_int \<lfloor>y\<rfloor> / 10000"
    by (simp add: round4_floor y_def)
  have "spec_round_half_away4 x = (if y \<in> \<int> then round4 x - 1 / 10000 else round4 x)"
  proof (cases "y \<in> \<int>")
    case True
    then have "\<lceil>y\<rceil> = \<lfloor>y\<rfloor>"
      by (metis Ints_cases ceiling_of_int floor_of_int)
    with True show ?thesis
      unfolding sg r by (simp add: diff_divide_distrib)
  next
    case False
    then have "y \<noteq> of_int \<lfloor>y\<rfloor>"
      by (metis Ints_of_int)
    then have "\<lceil>y\<rceil> = \<lfloor>y\<rfloor> + 1"
      by (simp add: ceiling_altdef)
    with False show ?thesis
      unfolding sg r by simp
  qed
  then show ?thesis
    by (simp add: y_def)
qed

subsection \<open>What the recalculation keeps and what it writes\<close>

lemma recalc_weights: "per_material_weights (recalculateEOL r s) = per_material_weights r"
  by (simp add: recalculateEOL_def)

lemma recalc_breakdown:
  "breakdown (summary (recalculateEOL r s)) =
     (breakdown (summary r))\<lparr>end_of_life := round4 (newEol r s)\<rparr>"
  by (simp add: recalculateEOL_def newSummary_def round4_def)

lemma recalc_total: "total_co2e_kg (summary (recalculateEOL r s)) = round4 (newTotal r s)"
  by (simp add: recalculateEOL_def newSummary_def round4_def)

lemma recalc_links:
  "links (recalculateEOL r s) =
     map (\<lambda>l. if source l = ''eol'' \<and> target l = ''total''
               then l\<lparr>link_value := round4 \<bar>newEol r s\<bar>\<rparr> else l) (links r)"
  by (simp add: recalculateEOL_def newLinks_def round4_def Math_abs_def)

lemma newEol_recalc: "newEol (recalculateEOL r s) s' = newEol r s'"
  by (simp add: newEol_def recalc_weights)

lemma newTotal_recalc: "newTotal (recalculateEOL r s) s' = newTotal r s'"
  by (simp add: newTotal_def Let_def recalc_breakdown newEol_recalc)

lemma newLinks_recalc: "newLinks (recalculateEOL r s) s = newLinks r s"
proof -
  define v where "v = Math_round (Math_abs (newEol r s) * 10000) / 10000"
  define f where "f = (\<lambda>link :: SankeyLink. if source link = ''eol'' \<and> target link = ''total''
                               then link\<lparr>link_value := v\<rparr> else link)"
  have once: "newLinks r s = map f (links r)"
    by (simp add: newLinks_def f_def v_def)
  have "links (recalculateEOL r s) = map f (links r)"
    by (simp add: recalculateEOL_def once)
  then have "newLinks (recalculateEOL r s) s = map f (map f (links r))"
    by (simp add: newLinks_def newEol_recalc f_def v_def)
  moreover have "f (f l) = f l" for l
    by (simp add: f_def)
  ultimately show ?thesis
    by (simp add: once)
qed

lemma newSummary_recalc: "newSummary (recalculateEOL r s) s = newSummary r s"
proof -
  have "summary (recalculateEOL r s) = newSummary r s"
    by (simp add: recalculateEOL_def)
  then have "newSummary (recalculateEOL r s) s =
      (newSummary r s)
        \<lparr>total_co2e_kg := Math_round (newTotal r s * 10000) / 10000,
         eol_scenario := s,
         breakdown := (breakdown (newSummary r s))
           \<lparr>end_of_life := Math_round (newEol r s * 10000) / 10000\<rparr>\<rparr>"
    by (simp add: newSummary_def [of "recalculateEOL r s"] newEol_recalc newTotal_recalc)
  also have "\<dots> = newSummary r s"
    by (simp add: newSummary_def)
  finally show ?thesis .
qed

subsection \<open>The specification's formula and the two scenarios of its example\<close>

lemma spec_blended_factor_predefined:
  assumes "map_of EOL_SCENARIOS s = Some m"
  shows "spec_blended_factor m = blendedFactor s"
proof -
  have "mix s = Mix m"
    using assms by (rule mix_predefined)
  then have b: "blendedFactor s = (\<Sum>(method, fr)\<leftarrow>m. fr * method_factor_or_0 method)"
    by (simp add: blendedFactor_def blend_sum)
  from scenario_cases [OF assms] show ?thesis
    unfolding b
    by (elim disjE conjE)
      (simp_all add: spec_blended_factor_def spec_method_factor_def method_factor_or_0_def
        EOL_METHOD_FACTORS_def)
qed

lemma sum_weights:
  "(\<Sum>(k, w)\<leftarrow>ws. w * (c::real)) = sum_list (Object_values ws) * c"
  by (induction ws) (auto simp: Object_values_def algebra_simps)

lemma round4_044: "round4 (x + 0.44) = round4 x + 0.44"
  using round4_shift [of x 4400] by simp

lemma round4_009: "round4 (x - 0.09) = round4 x - 0.09"
  using round4_shift [of x "- 900"] by simp

subsection \<open>The light product in exact arithmetic\<close>

lemma light_weights: "per_material_weights light_result = [(''pet'', 0.005)]"
  by (simp add: light_result_def)

lemma light_newEol: "newEol light_result ''best_case'' = - 0.00045"
  by (simp add: newEol_sum light_weights Object_values_def blendedFactor_best_case)

lemma light_links:
  "links light_result = [\<lparr>source = ''eol'', target = ''total'', link_value = 0.0022\<rparr>]"
  by (simp add: light_result_def)

lemma round4_tie_negative: "round4 (- 0.00045) = - 0.0004"
  by (simp add: round4_floor)

lemma round4_tie_positive: "round4 0.00045 = 0.0005"
  by (simp add: round4_floor)

subsection \<open>Scenario selectors that are not predefined names\<close>

lemma recalculateEOL_undefined_selector:
  assumes "map_of EOL_SCENARIOS s = None" and "s \<notin> set Object_prototype"
  shows "recalculateEOL r s = (recalculateEOL r ''baseline'')
     \<lparr>summary := (summary (recalculateEOL r ''baseline''))\<lparr>eol_scenario := s\<rparr>\<rparr>"
proof -
  have "blendedFactor s = blendedFactor ''baseline''"
    using assms by (rule blendedFactor_undefined)
  then have e: "newEol r s = newEol r ''baseline''"
    by (simp add: newEol_sum)
  then have t: "newTotal r s = newTotal r ''baseline''"
    by (simp add: newTotal_def)
  show ?thesis
    by (simp add: recalculateEOL_def newLinks_def newSummary_def e t)
qed

lemma recalculateEOL_scenario_name: "eol_scenario (summary (recalculateEOL r s)) = s"
  by (simp add: recalculateEOL_def newSummary_def)

lemma example_weights: "per_material_weights example_result = [(''steel'', 1)]"
  by (simp add: example_result_def)

lemma example_breakdown:
  "breakdown (summary example_result) =
     \<lparr>materials = 2, manufacturing = 1, transport = 0.5, use = 0.5, end_of_life = 0.44\<rparr>"
  by (simp add: example_result_def)

lemma example_links:
  "links example_result =
     [\<lparr>source = ''use'', target = ''eol'', link_value = 0.5\<rparr>,
      \<lparr>source = ''eol'', target = ''total'', link_value = 0.44\<rparr>]"
  by (simp add: example_result_def)

lemma example_newEol_baseline: "newEol example_result ''baseline'' = 0.44"
  by (simp add: newEol_sum example_weights Object_values_def blendedFactor_baseline)

lemma example_newEol_inherited:
  "s \<in> set Object_prototype \<Longrightarrow> newEol example_result s = 0"
  by (simp add: newEol_sum blendedFactor_inherited)

lemma round4_0: "round4 0 = 0"
  by (simp add: round4_floor)

lemma round4_4: "round4 4 = 4"
  by (simp add: round4_floor)

lemma round4_044_0: "round4 0.44 = 0.44"
  using round4_044 [of 0] by (simp add: round4_0)

lemma round4_444: "round4 4.44 = 4.44"
  using round4_044 [of 4] by (simp add: round4_4)

subsection \<open>The total in exact arithmetic\<close>

lemma total_exact_for_rounded_phases:
  assumes "(materials (breakdown (summary r)) + manufacturing (breakdown (summary r))
      + transport (breakdown (summary r)) + use (breakdown (summary r))) * 10000 \<in> \<int>"
  shows "total_co2e_kg (summary (recalculateEOL r s)) =
     materials (breakdown (summary (recalculateEOL r s)))
     + manufacturing (breakdown (summary (recalculateEOL r s)))
     + transport (breakdown (summary (recalculateEOL r s)))
     + use (breakdown (summary (recalculateEOL r s)))
     + end_of_life (breakdown (summary (recalculateEOL r s)))"
proof -
  define S where "S = materials (breakdown (summary r)) + manufacturing (breakdown (summary r))
      + transport (breakdown (summary r)) + use (breakdown (summary r))"
  from assms obtain k :: int where "S * 10000 = of_int k"
    unfolding S_def by (rule Ints_cases)
  then have S: "S = of_int k / 10000"
    by simp
  have "round4 (newEol r s + S) = round4 (newEol r s) + S"
    unfolding S by (rule round4_shift)
  then have "round4 (newTotal r s) = S + round4 (newEol r s)"
    by (simp add: newTotal_def Let_def S_def add.commute)
  then show ?thesis
    by (simp add: recalc_total recalc_breakdown S_def)
qed

subsection \<open>The formula in exact arithmetic\<close>

text \<open>
  With exact arithmetic the two folds are the specification's sums, and on a result whose
  weights sum to 1 kg the baseline and best-case values are 0.44 and -0.09, the totals
  0.53 apart. The source computes in doubles; the double-precision lemmas below show where
  that changes the stored values.
\<close>

lemma recalculateEOL_formula:
  assumes "map_of EOL_SCENARIOS scenario = Some m"
  shows
    "newEol original scenario =
       (\<Sum>(k, w)\<leftarrow>per_material_weights original. w * spec_blended_factor m) \<and>
     newTotal original scenario =
       materials (breakdown (summary original)) + manufacturing (breakdown (summary original))
       + transport (breakdown (summary original)) + use (breakdown (summary original))
       + newEol original scenario \<and>
     end_of_life (breakdown (summary (recalculateEOL original scenario)))
       = round4 (newEol original scenario) \<and>
     total_co2e_kg (summary (recalculateEOL original scenario))
       = round4 (newTotal original scenario) \<and>
     (sum_list (Object_values (per_material_weights original)) = 1 \<longrightarrow>
        end_of_life (breakdown (summary (recalculateEOL original ''baseline''))) = 0.44 \<and>
        end_of_life (breakdown (summary (recalculateEOL original ''best_case''))) = - 0.09 \<and>
        total_co2e_kg (summary (recalculateEOL original ''baseline''))
          - total_co2e_kg (summary (recalculateEOL original ''best_case'')) = 0.53 \<and>
        (breakdown (summary (recalculateEOL original ''best_case'')))\<lparr>end_of_life := 0\<rparr>
          = (breakdown (summary (recalculateEOL original ''baseline'')))\<lparr>end_of_life := 0\<rparr>)"
proof -
  define S where "S = materials (breakdown (summary original))
    + manufacturing (breakdown (summary original))
    + transport (breakdown (summary original)) + use (breakdown (summary original))"
  have eol: "newEol original scenario =
      (\<Sum>(k, w)\<leftarrow>per_material_weights original. w * spec_blended_factor m)"
    by (simp add: newEol_sum sum_weights spec_blended_factor_predefined [OF assms])
  have tot: "newTotal original s = S + newEol original s" for s
    by (simp add: newTotal_def Let_def S_def)
  have particular:
    "end_of_life (breakdown (summary (recalculateEOL original ''baseline''))) = 0.44 \<and>
     end_of_life (breakdown (summary (recalculateEOL original ''best_case''))) = - 0.09 \<and>
     total_co2e_kg (summary (recalculateEOL original ''baseline''))
       - total_co2e_kg (summary (recalculateEOL original ''best_case'')) = 0.53 \<and>
     (breakdown (summary (recalculateEOL original ''best_case'')))\<lparr>end_of_life := 0\<rparr>
       = (breakdown (summary (recalculateEOL original ''baseline'')))\<lparr>end_of_life := 0\<rparr>"
    if one: "sum_list (Object_values (per_material_weights original)) = 1"
  proof -
    have e1: "newEol original ''baseline'' = 0.44"
      by (simp add: newEol_sum one blendedFactor_baseline)
    have e2: "newEol original ''best_case'' = - 0.09"
      by (simp add: newEol_sum one blendedFactor_best_case)
    have r1: "round4 0.44 = 0.44"
      using round4_044 [of 0] by (simp add: round4_floor)
    have r2: "round4 (- 0.09) = - 0.09"
      using round4_009 [of 0] by (simp add: round4_floor)
    have t1: "round4 (newTotal original ''baseline'') = round4 S + 0.44"
      by (simp only: tot e1 round4_044)
    have "S + - 0.09 = S - 0.09"
      by simp
    then have t2: "round4 (newTotal original ''best_case'') = round4 S - 0.09"
      by (simp only: tot e2 round4_009)
    show ?thesis
      unfolding recalc_breakdown recalc_total e1 e2 r1 r2 t1 t2 by simp
  qed
  from eol particular show ?thesis
    by (simp add: tot S_def recalc_breakdown recalc_total)
qed

text \<open>
  With exact arithmetic the stored total and the sum of the five stored phase values differ
  by less than one unit of the fourth decimal.
\<close>

lemma recalculateEOL_total_consistent:
  "\<bar>total_co2e_kg (summary (recalculateEOL r s))
     - (materials (breakdown (summary (recalculateEOL r s)))
        + manufacturing (breakdown (summary (recalculateEOL r s)))
        + transport (breakdown (summary (recalculateEOL r s)))
        + use (breakdown (summary (recalculateEOL r s)))
        + end_of_life (breakdown (summary (recalculateEOL r s))))\<bar> < 1 / 10000"
proof -
  define b where "b = breakdown (summary r)"
  define S where "S = materials b + manufacturing b + transport b + use b"
  define e where "e = newEol r s"
  have t: "newTotal r s = S + e"
    by (simp add: newTotal_def Let_def S_def b_def e_def)
  have "total_co2e_kg (summary (recalculateEOL r s))
     - (materials (breakdown (summary (recalculateEOL r s)))
        + manufacturing (breakdown (summary (recalculateEOL r s)))
        + transport (breakdown (summary (recalculateEOL r s)))
        + use (breakdown (summary (recalculateEOL r s)))
        + end_of_life (breakdown (summary (recalculateEOL r s))))
     = round4 (S + e) - (S + round4 e)"
    by (simp add: recalc_total recalc_breakdown t) (simp add: S_def b_def e_def)
  moreover have "round4 (S + e) - (S + e) \<le> 1 / 20000" by (rule round4_upper)
  moreover have "- (1 / 20000) < round4 (S + e) - (S + e)" by (rule round4_lower)
  moreover have "round4 e - e \<le> 1 / 20000" by (rule round4_upper)
  moreover have "- (1 / 20000) < round4 e - e" by (rule round4_lower)
  ultimately show ?thesis by linarith
qed

section \<open>Properties of the double-precision function\<close>

subsection \<open>Evaluating the rounding\<close>

lemma ulp_down_eval:
  assumes "j \<le> n" and "n - j \<le> k" and "2 ^ 52 \<le> a * 2 ^ n" and "a * 2 ^ n < 2 ^ 53"
  shows "ulp_down k (1 / 2 ^ j) a = 1 / 2 ^ n"
  using assms
proof (induction k arbitrary: j)
  case 0
  then have "j = n" by simp
  then show ?case by simp
next
  case (Suc k)
  show ?case
  proof (cases "j = n")
    case True
    from Suc.prems(3) have "2 ^ 52 * (1 / 2 ^ n) \<le> a"
      by (simp add: field_simps)
    with True show ?thesis by simp
  next
    case False
    with Suc.prems have jn: "Suc j \<le> n" by simp
    have p: "(2::real) ^ Suc j \<le> 2 ^ n"
      using jn by (intro power_increasing) simp_all
    have "0 \<le> a"
    proof (rule ccontr)
      assume "\<not> 0 \<le> a"
      then have "a * 2 ^ n < 0"
        by (simp add: mult_less_0_iff)
      with Suc.prems(3) show False
        by (smt (verit) zero_le_power)
    qed
    with p have "a * 2 ^ Suc j \<le> a * 2 ^ n"
      by (simp only: mult_left_mono)
    with Suc.prems(4) have "a * 2 ^ Suc j < 2 ^ 53"
      by linarith
    then have lt: "a < 2 ^ 52 * (1 / 2 ^ j)"
      by (simp add: field_simps)
    have "ulp_down k (1 / 2 ^ Suc j) a = 1 / 2 ^ n"
      using jn Suc.prems by (intro Suc.IH) simp_all
    moreover have "1 / 2 ^ j / 2 = 1 / (2::real) ^ Suc j"
      by simp
    ultimately show ?thesis
      using lt by (simp only: ulp_down.simps if_True)
  qed
qed

lemma ulp_eval:
  assumes "n \<le> 1074" and "2 ^ 52 \<le> a * 2 ^ n" and "a * 2 ^ n < 2 ^ 53"
  shows "ulp a = 1 / 2 ^ n"
proof -
  have "0 \<le> a"
  proof (rule ccontr)
    assume "\<not> 0 \<le> a"
    then have "a * 2 ^ n < 0"
      by (simp add: mult_less_0_iff)
    with assms(2) show False
      by (smt (verit) zero_le_power)
  qed
  moreover have "(1::real) \<le> 2 ^ n"
    by simp
  ultimately have "a * 1 \<le> a * 2 ^ n"
    by (simp only: mult_left_mono)
  with assms(3) have "\<not> 2 ^ 53 \<le> a" by simp
  moreover have "ulp_down 1074 (1 / 2 ^ 0) a = 1 / 2 ^ n"
    using assms by (intro ulp_down_eval) simp_all
  ultimately show ?thesis by (simp add: ulp_def)
qed

lemma fl_eval:
  assumes "n \<le> 1074" and "2 ^ 52 \<le> \<bar>x\<bar> * 2 ^ n" and "\<bar>x\<bar> * 2 ^ n < 2 ^ 53"
  shows "fl x = of_int (round_to_even (x * 2 ^ n)) / 2 ^ n"
  by (simp add: fl_def ulp_eval [OF assms])

lemma fl_zero: "fl 0 = 0"
  by (simp add: fl_def round_to_even_def)

text \<open>The same for a magnitude of \<open>2^53\<close> or more, where the unit is a power of two above 1.\<close>

lemma ulp_up_eval:
  assumes "j \<le> n" and "n - j \<le> k" and "2 ^ 52 * 2 ^ n \<le> a" and "a < 2 ^ 53 * 2 ^ n"
  shows "ulp_up k (2 ^ j) a = 2 ^ n"
  using assms
proof (induction k arbitrary: j)
  case 0
  then have "j = n" by simp
  then show ?case by simp
next
  case (Suc k)
  show ?case
  proof (cases "j = n")
    case True
    with Suc.prems(4) show ?thesis by simp
  next
    case False
    with Suc.prems have jn: "Suc j \<le> n" by simp
    have "(2::real) ^ Suc j \<le> 2 ^ n"
      using jn by (intro power_increasing) simp_all
    then have "(2::real) ^ 52 * 2 ^ Suc j \<le> 2 ^ 52 * 2 ^ n"
      by (intro mult_left_mono) simp_all
    with Suc.prems(3) have le: "2 ^ 53 * 2 ^ j \<le> a"
      by simp
    have "ulp_up k (2 ^ Suc j) a = 2 ^ n"
      using jn Suc.prems by (intro Suc.IH) simp_all
    moreover have "2 * (2::real) ^ j = 2 ^ Suc j"
      by simp
    ultimately show ?thesis
      using le by (simp only: ulp_up.simps if_True)
  qed
qed

lemma ulp_eval_up:
  assumes "1 \<le> n" and "n \<le> 971" and "2 ^ 52 * 2 ^ n \<le> a" and "a < 2 ^ 53 * 2 ^ n"
  shows "ulp a = 2 ^ n"
proof -
  have "(2::real) ^ 1 \<le> 2 ^ n"
    using assms(1) by (intro power_increasing) simp_all
  then have "(2::real) ^ 52 * 2 ^ 1 \<le> 2 ^ 52 * 2 ^ n"
    by (intro mult_left_mono) simp_all
  with assms(3) have "2 ^ 53 \<le> a"
    by simp
  moreover have "ulp_up 971 (2 ^ 0) a = 2 ^ n"
    using assms by (intro ulp_up_eval) simp_all
  ultimately show ?thesis by (simp add: ulp_def)
qed

lemma fl_eval_up:
  assumes "1 \<le> n" and "n \<le> 971" and "2 ^ 52 * 2 ^ n \<le> \<bar>x\<bar>" and "\<bar>x\<bar> < 2 ^ 53 * 2 ^ n"
  shows "fl x = of_int (round_to_even (x / 2 ^ n)) * 2 ^ n"
  by (simp add: fl_def ulp_eval_up [OF assms])

text \<open>
  The roundings that the example results need: the decimals of the tables and of the
  examples, and the exact sums, products and quotients formed from them.
\<close>

lemma fl_value_1: "fl (- (1 / 2500)) = - (7378697629483821 / 18446744073709551616)"
  by (simp add: fl_eval [where n = 64] round_to_even_def Let_def)

lemma fl_value_2: "fl (1 / 2500) = 7378697629483821 / 18446744073709551616"
  by (simp add: fl_eval [where n = 64] round_to_even_def Let_def)

lemma fl_value_3: "fl (- (4673067172681343348865092197915 / 10384593717069655257060992658440192)) = - (518814677073081 / 1152921504606846976)"
  by (simp add: fl_eval [where n = 64] round_to_even_def Let_def)

lemma fl_value_4: "fl (- (518814677073081 / 1152921504606846976)) = - (518814677073081 / 1152921504606846976)"
  by (simp add: fl_eval [where n = 64] round_to_even_def Let_def)

lemma fl_value_5: "fl (1 / 400) = 5764607523034235 / 2305843009213693952"
  by (simp add: fl_eval [where n = 61] round_to_even_def Let_def)

lemma fl_value_6: "fl (- (69913465903787285100081665905 / 20282409603651670423947251286016)) = - (496765053297475 / 144115188075855872)"
  by (simp add: fl_eval [where n = 61] round_to_even_def Let_def)

lemma fl_value_7: "fl (1 / 200) = 5764607523034235 / 1152921504606846976"
  by (simp add: fl_eval [where n = 60] round_to_even_def Let_def)

lemma fl_value_8: "fl (- (5362344580651841766416370659865 / 649037107316853453566312041152512)) = - (1190679683882721 / 144115188075855872)"
  by (simp add: fl_eval [where n = 59] round_to_even_def Let_def)

lemma fl_value_9: "fl (- (1190679683882721 / 144115188075855872)) = - (1190679683882721 / 144115188075855872)"
  by (simp add: fl_eval [where n = 59] round_to_even_def Let_def)

lemma fl_value_10: "fl (1 / 100) = 5764607523034235 / 576460752303423488"
  by (simp add: fl_eval [where n = 59] round_to_even_def Let_def)

lemma fl_value_11: "fl (- (949216769450897880404595804681 / 81129638414606681695789005144064)) = - (6744590801950053 / 576460752303423488)"
  by (simp add: fl_eval [where n = 59] round_to_even_def Let_def)

lemma fl_value_12: "fl (17293822569102705 / 1152921504606846976) = 1080863910568919 / 72057594037927936"
  by (simp add: fl_eval [where n = 59] round_to_even_def Let_def)

lemma fl_value_13: "fl (40352252661239643 / 2305843009213693952) = 5044031582654955 / 288230376151711744"
  by (simp add: fl_eval [where n = 58] round_to_even_def Let_def)

lemma fl_value_14: "fl (39 / 2000) = 5620492334958379 / 288230376151711744"
  by (simp add: fl_eval [where n = 58] round_to_even_def Let_def)

lemma fl_value_15: "fl (22539615415063855 / 1152921504606846976) = 1408725963441491 / 72057594037927936"
  by (simp add: fl_eval [where n = 58] round_to_even_def Let_def)

lemma fl_value_16: "fl (- (11507309537480937 / 576460752303423488)) = - (1438413692185117 / 72057594037927936)"
  by (simp add: fl_eval [where n = 58] round_to_even_def Let_def)

lemma fl_value_17: "fl (46116860184273875 / 2305843009213693952) = 2882303761517117 / 144115188075855872"
  by (simp add: fl_eval [where n = 58] round_to_even_def Let_def)

lemma fl_value_18: "fl (383 / 10000) = 86243932864145 / 2251799813685248"
  by (simp add: fl_eval [where n = 57] round_to_even_def Let_def)

lemma fl_value_19: "fl (- (3686611899198141062414767404903 / 81129638414606681695789005144064)) = - (6548738261354965 / 144115188075855872)"
  by (simp add: fl_eval [where n = 57] round_to_even_def Let_def)

lemma fl_value_20: "fl (3602879701896397 / 72057594037927936) = 3602879701896397 / 72057594037927936"
  by (simp add: fl_eval [where n = 57] round_to_even_def Let_def)

lemma fl_value_21: "fl (- (19471113219505603967277331424215 / 324518553658426726783156020576256)) = - (1080863910568919 / 18014398509481984)"
  by (simp add: fl_eval [where n = 57] round_to_even_def Let_def)

lemma fl_value_22: "fl (- (9425565645725199 / 144115188075855872)) = - (589097852857825 / 9007199254740992)"
  by (simp add: fl_eval [where n = 56] round_to_even_def Let_def)

lemma fl_value_23: "fl (- (43 / 625)) = - (2478781234904721 / 36028797018963968)"
  by (simp add: fl_eval [where n = 56] round_to_even_def Let_def)

lemma fl_value_24: "fl (43 / 625) = 2478781234904721 / 36028797018963968"
  by (simp add: fl_eval [where n = 56] round_to_even_def Let_def)

lemma fl_value_25: "fl (- (9922330699022675 / 144115188075855872)) = - (2480582674755669 / 36028797018963968)"
  by (simp add: fl_eval [where n = 56] round_to_even_def Let_def)

lemma fl_value_26: "fl (- (689 / 10000)) = - (4964768229213235 / 72057594037927936)"
  by (simp add: fl_eval [where n = 56] round_to_even_def Let_def)

lemma fl_value_27: "fl (689 / 10000) = 4964768229213235 / 72057594037927936"
  by (simp add: fl_eval [where n = 56] round_to_even_def Let_def)

lemma fl_value_28: "fl (- (810647932926689 / 9007199254740992)) = - (810647932926689 / 9007199254740992)"
  by (simp add: fl_eval [where n = 56] round_to_even_def Let_def)

lemma fl_value_29: "fl (- (9 / 100)) = - (3242591731706757 / 36028797018963968)"
  by (simp add: fl_eval [where n = 56] round_to_even_def Let_def)

lemma fl_value_30: "fl (9 / 100) = 3242591731706757 / 36028797018963968"
  by (simp add: fl_eval [where n = 56] round_to_even_def Let_def)

lemma fl_value_31: "fl (459 / 5000) = 6614887132681785 / 72057594037927936"
  by (simp add: fl_eval [where n = 56] round_to_even_def Let_def)

lemma fl_value_32: "fl (1 / 10) = 3602879701896397 / 36028797018963968"
  by (simp add: fl_eval [where n = 56] round_to_even_def Let_def)

lemma fl_value_33: "fl (3602879701896397 / 36028797018963968) = 3602879701896397 / 36028797018963968"
  by (simp add: fl_eval [where n = 56] round_to_even_def Let_def)

lemma fl_value_34: "fl (13 / 100) = 1170935903116329 / 9007199254740992"
  by (simp add: fl_eval [where n = 55] round_to_even_def Let_def)

lemma fl_value_35: "fl (10808639105689191 / 72057594037927936) = 1351079888211149 / 9007199254740992"
  by (simp add: fl_eval [where n = 55] round_to_even_def Let_def)

lemma fl_value_36: "fl (1 / 5) = 3602879701896397 / 18014398509481984"
  by (simp add: fl_eval [where n = 55] round_to_even_def Let_def)

lemma fl_value_37: "fl (3602879701896397 / 18014398509481984) = 3602879701896397 / 18014398509481984"
  by (simp add: fl_eval [where n = 55] round_to_even_def Let_def)

lemma fl_value_38: "fl (- (19471113219505603967277331424215 / 81129638414606681695789005144064)) = - (1080863910568919 / 4503599627370496)"
  by (simp add: fl_eval [where n = 55] round_to_even_def Let_def)

lemma fl_value_39: "fl (5404319552844595 / 18014398509481984) = 5404319552844595 / 18014398509481984"
  by (simp add: fl_eval [where n = 54] round_to_even_def Let_def)

lemma fl_value_40: "fl (- (3 / 10)) = - (5404319552844595 / 18014398509481984)"
  by (simp add: fl_eval [where n = 54] round_to_even_def Let_def)

lemma fl_value_41: "fl (11 / 25) = 7926335344172073 / 18014398509481984"
  by (simp add: fl_eval [where n = 54] round_to_even_def Let_def)

lemma fl_value_42: "fl (7926335344172073 / 18014398509481984) = 7926335344172073 / 18014398509481984"
  by (simp add: fl_eval [where n = 54] round_to_even_def Let_def)

lemma fl_value_43: "fl (1 / 2) = 1 / 2"
  by (simp add: fl_eval [where n = 53] round_to_even_def Let_def)

lemma fl_value_44: "fl (5049 / 10000) = 4547734903718727 / 9007199254740992"
  by (simp add: fl_eval [where n = 53] round_to_even_def Let_def)

lemma fl_value_45: "fl (3 / 5) = 5404319552844595 / 9007199254740992"
  by (simp add: fl_eval [where n = 53] round_to_even_def Let_def)

lemma fl_value_46: "fl (4 / 5) = 3602879701896397 / 4503599627370496"
  by (simp add: fl_eval [where n = 53] round_to_even_def Let_def)

lemma fl_value_47: "fl (1) = 1"
  by (simp add: fl_eval [where n = 52] round_to_even_def Let_def)

lemma fl_value_48: "fl (2) = 2"
  by (simp add: fl_eval [where n = 51] round_to_even_def Let_def)

lemma fl_value_49: "fl (3) = 3"
  by (simp add: fl_eval [where n = 51] round_to_even_def Let_def)

lemma fl_value_50: "fl (7 / 2) = 7 / 2"
  by (simp add: fl_eval [where n = 51] round_to_even_def Let_def)

lemma fl_value_51: "fl (391 / 100) = 1100567158938665 / 281474976710656"
  by (simp add: fl_eval [where n = 51] round_to_even_def Let_def)

lemma fl_value_52: "fl (35218149086037279 / 9007199254740992) = 1100567158938665 / 281474976710656"
  by (simp add: fl_eval [where n = 51] round_to_even_def Let_def)

lemma fl_value_53: "fl (141634605401100203 / 36028797018963968) = 8852162837568763 / 2251799813685248"
  by (simp add: fl_eval [where n = 51] round_to_even_def Let_def)

lemma fl_value_54: "fl (2457 / 625) = 8852275427559447 / 2251799813685248"
  by (simp add: fl_eval [where n = 51] round_to_even_def Let_def)

lemma fl_value_55: "fl (4) = 4"
  by (simp add: fl_eval [where n = 50] round_to_even_def Let_def)

lemma fl_value_56: "fl (111 / 25) = 4998995586381251 / 1125899906842624"
  by (simp add: fl_eval [where n = 50] round_to_even_def Let_def)

lemma fl_value_57: "fl (79983929382100009 / 18014398509481984) = 4998995586381251 / 1125899906842624"
  by (simp add: fl_eval [where n = 50] round_to_even_def Let_def)

lemma fl_value_58: "fl (- (324259173170675625 / 72057594037927936)) = - (5066549580791807 / 1125899906842624)"
  by (simp add: fl_eval [where n = 50] round_to_even_def Let_def)

lemma fl_value_59: "fl (324259173170675625 / 72057594037927936) = 5066549580791807 / 1125899906842624"
  by (simp add: fl_eval [where n = 50] round_to_even_def Let_def)

lemma fl_value_60: "fl (199987 / 20000) = 1407283404185849 / 140737488355328"
  by (simp add: fl_eval [where n = 49] round_to_even_def Let_def)

lemma fl_value_61: "fl (1548020892541177 / 140737488355328) = 1548020892541177 / 140737488355328"
  by (simp add: fl_eval [where n = 49] round_to_even_def Let_def)

lemma fl_value_62: "fl (1618389636718841 / 140737488355328) = 1618389636718841 / 140737488355328"
  by (simp add: fl_eval [where n = 49] round_to_even_def Let_def)

lemma fl_value_63: "fl (107269888444449631 / 9007199254740992) = 3352184013889051 / 281474976710656"
  by (simp add: fl_eval [where n = 49] round_to_even_def Let_def)

lemma fl_value_64: "fl (59547 / 5000) = 6704396175275773 / 562949953421312"
  by (simp add: fl_eval [where n = 49] round_to_even_def Let_def)

lemma fl_value_65: "fl (1688758380896505 / 140737488355328) = 1688758380896505 / 140737488355328"
  by (simp add: fl_eval [where n = 49] round_to_even_def Let_def)

lemma fl_value_66: "fl (124393 / 10000) = 3501351677796863 / 281474976710656"
  by (simp add: fl_eval [where n = 49] round_to_even_def Let_def)

lemma fl_value_67: "fl (224087408098924713 / 18014398509481984) = 7002731503091397 / 562949953421312"
  by (simp add: fl_eval [where n = 49] round_to_even_def Let_def)

lemma fl_value_68: "fl (880453727150931875 / 4503599627370496) = 6878544743366655 / 35184372088832"
  by (simp add: fl_eval [where n = 45] round_to_even_def Let_def)

lemma fl_value_69: "fl (- (1550364171722293125 / 2251799813685248)) = - (1377 / 2)"
  by (simp add: fl_eval [where n = 43] round_to_even_def Let_def)

lemma fl_value_70: "fl (1550364171722293125 / 2251799813685248) = 1377 / 2"
  by (simp add: fl_eval [where n = 43] round_to_even_def Let_def)

lemma fl_value_71: "fl (- (506654958079180625 / 562949953421312)) = - (7916483719987197 / 8796093022208)"
  by (simp add: fl_eval [where n = 43] round_to_even_def Let_def)

lemma fl_value_72: "fl (506654958079180625 / 562949953421312) = 7916483719987197 / 8796093022208"
  by (simp add: fl_eval [where n = 43] round_to_even_def Let_def)

lemma fl_value_73: "fl (4953959590107545625 / 1125899906842624) = 4400"
  by (simp add: fl_eval [where n = 40] round_to_even_def Let_def)

lemma fl_value_74: "fl (687854474336665625 / 17592186044416) = 39100"
  by (simp add: fl_eval [where n = 37] round_to_even_def Let_def)

lemma fl_value_75: "fl (5532601773480476875 / 140737488355328) = 78623 / 2"
  by (simp add: fl_eval [where n = 37] round_to_even_def Let_def)

lemma fl_value_76: "fl (3124372241488281875 / 70368744177664) = 6102289534156801 / 137438953472"
  by (simp add: fl_eval [where n = 37] round_to_even_def Let_def)

lemma fl_value_77: "fl (2095115008680656875 / 17592186044416) = 238187 / 2"
  by (simp add: fl_eval [where n = 36] round_to_even_def Let_def)

lemma fl_value_78: "fl (4376707189432123125 / 35184372088832) = 8548256229359615 / 68719476736"
  by (simp add: fl_eval [where n = 36] round_to_even_def Let_def)

lemmas fl_values = fl_value_1 fl_value_2 fl_value_3 fl_value_4 fl_value_5 fl_value_6
  fl_value_7 fl_value_8 fl_value_9 fl_value_10 fl_value_11 fl_value_12 fl_value_13
  fl_value_14 fl_value_15 fl_value_16 fl_value_17 fl_value_18 fl_value_19 fl_value_20
  fl_value_21 fl_value_22 fl_value_23 fl_value_24 fl_value_25 fl_value_26 fl_value_27
  fl_value_28 fl_value_29 fl_value_30 fl_value_31 fl_value_32 fl_value_33 fl_value_34
  fl_value_35 fl_value_36 fl_value_37 fl_value_38 fl_value_39 fl_value_40 fl_value_41
  fl_value_42 fl_value_43 fl_value_44 fl_value_45 fl_value_46 fl_value_47 fl_value_48
  fl_value_49 fl_value_50 fl_value_51 fl_value_52 fl_value_53 fl_value_54 fl_value_55
  fl_value_56 fl_value_57 fl_value_58 fl_value_59 fl_value_60 fl_value_61 fl_value_62
  fl_value_63 fl_value_64 fl_value_65 fl_value_66 fl_value_67 fl_value_68 fl_value_69
  fl_value_70 fl_value_71 fl_value_72 fl_value_73 fl_value_74 fl_value_75 fl_value_76
  fl_value_77 fl_value_78

text \<open>The roundings that the example of large magnitude needs.\<close>

lemma fl_big_1: "fl (4000000000000000) = 4000000000000000"
  by (simp add: fl_eval [where n = 1] round_to_even_def Let_def)

lemma fl_big_2: "fl (4000000000000001) = 4000000000000001"
  by (simp add: fl_eval [where n = 1] round_to_even_def Let_def)

lemma fl_big_3: "fl (8000000000000003 / 2) = 8000000000000003 / 2"
  by (simp add: fl_eval [where n = 1] round_to_even_def Let_def)

lemma fl_big_4: "fl (2500000000000001024 / 625) = 8000000000000003 / 2"
  by (simp add: fl_eval [where n = 1] round_to_even_def Let_def)

lemma fl_big_5: "fl (144115188075855940815002306221179 / 36028797018963968) = 4000000000000002"
  by (simp add: fl_eval [where n = 1] round_to_even_def Let_def)

lemma fl_big_6: "fl (36028797018963985203750576555295 / 9007199254740992) = 4000000000000002"
  by (simp add: fl_eval [where n = 1] round_to_even_def Let_def)

lemma fl_big_7: "fl (4000000000000002) = 4000000000000002"
  by (simp add: fl_eval [where n = 1] round_to_even_def Let_def)

lemma fl_big_8: "fl (40000000000000020000) = 40000000000000016384"
  by (simp add: fl_eval_up [where n = 13] round_to_even_def Let_def)

lemmas fl_big_values = fl_big_1 fl_big_2 fl_big_3 fl_big_4 fl_big_5 fl_big_6 fl_big_7 fl_big_8

subsection \<open>The rounding is symmetric, \<open>Math.round\<close> is not\<close>






lemma round4_d_units: "round4_d x = fdiv (units4_d x) 10000"
  by (simp add: round4_d_def units4_d_def)





subsection \<open>How far a rounded result is from the exact one\<close>

text \<open>
  A number below \<open>2^53\<close> in magnitude and its nearest double differ by at most half a unit
  in the last place: by at most \<open>2^-53\<close> of a bound on the magnitude, or by \<open>2^-1075\<close>
  in the subnormal range. For the magnitudes of a footprint this bounds the error of the
  total and of the four-decimal rounding.
\<close>

lemma round_to_even_error: "\<bar>of_int (round_to_even y) - y\<bar> \<le> 1 / 2"
proof -
  have "of_int \<lfloor>y\<rfloor> \<le> y" and "y < of_int \<lfloor>y\<rfloor> + 1"
    by linarith+
  then show ?thesis
    by (auto simp: round_to_even_def Let_def)
qed

lemma ulp_down_bound:
  assumes "0 < u"
  shows "0 < ulp_down k u a \<and> (2 ^ 52 * ulp_down k u a \<le> a \<or> ulp_down k u a = u / 2 ^ k)"
  using assms
proof (induction k arbitrary: u)
  case 0
  then show ?case by simp
next
  case (Suc k)
  show ?case
  proof (cases "a < 2 ^ 52 * u")
    case True
    from Suc.prems have "0 < u / 2" by simp
    from Suc.IH [OF this] True show ?thesis
      by (auto simp: field_simps)
  next
    case False
    with Suc.prems show ?thesis by simp
  qed
qed

lemma ulp_small:
  assumes "a < 2 ^ 53"
  shows "0 < ulp a \<and> (2 ^ 52 * ulp a \<le> a \<or> ulp a = 1 / 2 ^ 1074)"
  using assms ulp_down_bound [of 1 1074 a] by (simp add: ulp_def)

lemma fl_error:
  assumes "\<bar>x\<bar> \<le> B" and "B < 2 ^ 53"
  shows "\<bar>fl x - x\<bar> \<le> B / 2 ^ 53 + 1 / 2 ^ 1075"
proof -
  define u where "u = ulp \<bar>x\<bar>"
  from assms have "\<bar>x\<bar> < 2 ^ 53" by linarith
  from ulp_small [OF this] have pos: "0 < u"
    and cases: "2 ^ 52 * u \<le> \<bar>x\<bar> \<or> u = 1 / 2 ^ 1074"
    by (simp_all add: u_def)
  have "fl x - x = (of_int (round_to_even (x / u)) - x / u) * u"
    using pos by (simp add: fl_def u_def field_simps)
  then have "\<bar>fl x - x\<bar> = \<bar>of_int (round_to_even (x / u)) - x / u\<bar> * u"
    using pos by (simp add: abs_mult)
  also have "\<dots> \<le> 1 / 2 * u"
    using pos round_to_even_error [of "x / u"] by (intro mult_right_mono) simp_all
  finally have h: "\<bar>fl x - x\<bar> \<le> u / 2"
    by simp
  from cases show ?thesis
  proof
    assume "2 ^ 52 * u \<le> \<bar>x\<bar>"
    with assms(1) have "2 ^ 52 * u \<le> B" by linarith
    then have "u / 2 \<le> B / 2 ^ 53"
      by (simp add: field_simps)
    with h show ?thesis
      by (smt (verit) divide_nonneg_nonneg zero_le_numeral zero_le_one zero_le_power)
  next
    assume "u = 1 / 2 ^ 1074"
    then have "u / 2 = 1 / 2 ^ 1075"
      by simp
    moreover have "0 \<le> B / 2 ^ 53"
      using assms(1) by (smt (verit) divide_nonneg_nonneg zero_le_power)
    ultimately show ?thesis
      using h by linarith
  qed
qed

lemma fl_near:
  assumes "- 2097152 \<le> x" and "x \<le> 2097152"
  shows "x - 1 / (4 * 10 ^ 9) \<le> fl x \<and> fl x \<le> x + 1 / (4 * 10 ^ 9)"
proof -
  from assms have "\<bar>x\<bar> \<le> 2097152"
    by simp
  then have "\<bar>fl x - x\<bar> \<le> 2097152 / 2 ^ 53 + 1 / 2 ^ 1075"
    by (rule fl_error) simp
  moreover have "2097152 / 2 ^ 53 + 1 / 2 ^ 1075 \<le> (1 / (4 * 10 ^ 9) :: real)"
    by simp
  ultimately have "\<bar>fl x - x\<bar> \<le> 1 / (4 * 10 ^ 9)"
    by (rule order_trans)
  then show ?thesis
    by linarith
qed

lemma fl_near_units:
  assumes "- 34359738368 \<le> x" and "x \<le> 34359738368"
  shows "x - 4 / 10 ^ 6 \<le> fl x \<and> fl x \<le> x + 4 / 10 ^ 6"
proof -
  from assms have "\<bar>x\<bar> \<le> 34359738368"
    by simp
  then have "\<bar>fl x - x\<bar> \<le> 34359738368 / 2 ^ 53 + 1 / 2 ^ 1075"
    by (rule fl_error) simp
  moreover have "34359738368 / 2 ^ 53 + 1 / 2 ^ 1075 \<le> (4 / 10 ^ 6 :: real)"
    by simp
  ultimately have "\<bar>fl x - x\<bar> \<le> 4 / 10 ^ 6"
    by (rule order_trans)
  then show ?thesis
    by linarith
qed

lemma Math_round_near: "y - 1 / 2 < Math_round y \<and> Math_round y \<le> y + 1 / 2"
  unfolding Math_round_def by linarith

lemma round4_d_near:
  assumes "- 2097151 \<le> x" and "x \<le> 2097151"
  shows "x - (1 / 20000 + 7 / 10 ^ 10) \<le> round4_d x \<and>
    round4_d x \<le> x + (1 / 20000 + 7 / 10 ^ 10)"
proof -
  define y where "y = fl (x * 10000)"
  define k where "k = Math_round y"
  from assms have "- 34359738368 \<le> x * 10000" and "x * 10000 \<le> 34359738368"
    by simp_all
  from fl_near_units [OF this]
  have y: "x * 10000 - 4 / 10 ^ 6 \<le> y" "y \<le> x * 10000 + 4 / 10 ^ 6"
    by (simp_all add: y_def)
  from Math_round_near [of y] have k: "y - 1 / 2 < k" "k \<le> y + 1 / 2"
    by (simp_all add: k_def)
  from assms y k have "- 2097152 \<le> k / 10000" and "k / 10000 \<le> 2097152"
    by simp_all
  from fl_near [OF this]
  have r: "k / 10000 - 1 / (4 * 10 ^ 9) \<le> fl (k / 10000)"
    "fl (k / 10000) \<le> k / 10000 + 1 / (4 * 10 ^ 9)"
    by simp_all
  have "round4_d x = fl (k / 10000)"
    by (simp add: round4_d_def fmul_def fdiv_def k_def y_def)
  with y k r show ?thesis
    by simp
qed

lemma newTotal_d_near:
  assumes "\<bar>materials (breakdown (summary r))\<bar> \<le> 100000"
    and "\<bar>manufacturing (breakdown (summary r))\<bar> \<le> 100000"
    and "\<bar>transport (breakdown (summary r))\<bar> \<le> 100000"
    and "\<bar>use (breakdown (summary r))\<bar> \<le> 100000"
    and "\<bar>newEol_d r s\<bar> \<le> 100000"
  shows "materials (breakdown (summary r)) + manufacturing (breakdown (summary r))
      + transport (breakdown (summary r)) + use (breakdown (summary r)) + newEol_d r s
      - 2 / 10 ^ 9 \<le> newTotal_d r s \<and>
    newTotal_d r s \<le> materials (breakdown (summary r)) + manufacturing (breakdown (summary r))
      + transport (breakdown (summary r)) + use (breakdown (summary r)) + newEol_d r s
      + 2 / 10 ^ 9"
proof -
  define m where "m = materials (breakdown (summary r))"
  define f where "f = manufacturing (breakdown (summary r))"
  define t where "t = transport (breakdown (summary r))"
  define u where "u = use (breakdown (summary r))"
  define e where "e = newEol_d r s"
  from assms have b: "- 100000 \<le> m" "m \<le> 100000" "- 100000 \<le> f" "f \<le> 100000"
    "- 100000 \<le> t" "t \<le> 100000" "- 100000 \<le> u" "u \<le> 100000" "- 100000 \<le> e" "e \<le> 100000"
    by (simp_all add: m_def f_def t_def u_def e_def abs_le_iff)
  have m: "m - 1 / (4 * 10 ^ 9) \<le> fl m" "fl m \<le> m + 1 / (4 * 10 ^ 9)"
    using fl_near [of m] b by simp_all
  have f: "f - 1 / (4 * 10 ^ 9) \<le> fl f" "fl f \<le> f + 1 / (4 * 10 ^ 9)"
    using fl_near [of f] b by simp_all
  have t: "t - 1 / (4 * 10 ^ 9) \<le> fl t" "fl t \<le> t + 1 / (4 * 10 ^ 9)"
    using fl_near [of t] b by simp_all
  have u: "u - 1 / (4 * 10 ^ 9) \<le> fl u" "fl u \<le> u + 1 / (4 * 10 ^ 9)"
    using fl_near [of u] b by simp_all
  define s1 where "s1 = fl (fl m + fl f)"
  define s2 where "s2 = fl (s1 + fl t)"
  define s3 where "s3 = fl (s2 + fl u)"
  define s4 where "s4 = fl (s3 + e)"
  have s1: "fl m + fl f - 1 / (4 * 10 ^ 9) \<le> s1" "s1 \<le> fl m + fl f + 1 / (4 * 10 ^ 9)"
    using fl_near [of "fl m + fl f"] b m f by (simp_all add: s1_def)
  have s2: "s1 + fl t - 1 / (4 * 10 ^ 9) \<le> s2" "s2 \<le> s1 + fl t + 1 / (4 * 10 ^ 9)"
    using fl_near [of "s1 + fl t"] b m f t s1 by (simp_all add: s2_def)
  have s3: "s2 + fl u - 1 / (4 * 10 ^ 9) \<le> s3" "s3 \<le> s2 + fl u + 1 / (4 * 10 ^ 9)"
    using fl_near [of "s2 + fl u"] b m f t u s1 s2 by (simp_all add: s3_def)
  have s4: "s3 + e - 1 / (4 * 10 ^ 9) \<le> s4" "s4 \<le> s3 + e + 1 / (4 * 10 ^ 9)"
    using fl_near [of "s3 + e"] b m f t u s1 s2 s3 by (simp_all add: s4_def)
  have "newTotal_d r s = s4"
    by (simp add: newTotal_d_def Let_def fadd_def s4_def s3_def s2_def s1_def m_def f_def t_def
        u_def e_def)
  with m f t u s1 s2 s3 s4 show ?thesis
    unfolding m_def [symmetric] f_def [symmetric] t_def [symmetric] u_def [symmetric]
      e_def [symmetric]
    by simp
qed

lemma breakdown_sum_d_near:
  assumes "\<bar>materials b\<bar> \<le> 100000" and "\<bar>manufacturing b\<bar> \<le> 100000"
    and "\<bar>transport b\<bar> \<le> 100000" and "\<bar>use b\<bar> \<le> 100000"
    and "\<bar>end_of_life b\<bar> \<le> 100001"
  shows "materials b + manufacturing b + transport b + use b + end_of_life b - 1 / 10 ^ 9
      \<le> breakdown_sum_d b \<and>
    breakdown_sum_d b
      \<le> materials b + manufacturing b + transport b + use b + end_of_life b + 1 / 10 ^ 9"
proof -
  define m where "m = materials b"
  define f where "f = manufacturing b"
  define t where "t = transport b"
  define u where "u = use b"
  define e where "e = end_of_life b"
  from assms have b: "- 100000 \<le> m" "m \<le> 100000" "- 100000 \<le> f" "f \<le> 100000"
    "- 100000 \<le> t" "t \<le> 100000" "- 100000 \<le> u" "u \<le> 100000" "- 100001 \<le> e" "e \<le> 100001"
    by (simp_all add: m_def f_def t_def u_def e_def abs_le_iff)
  define s1 where "s1 = fl (m + f)"
  define s2 where "s2 = fl (s1 + t)"
  define s3 where "s3 = fl (s2 + u)"
  define s4 where "s4 = fl (s3 + e)"
  have s1: "m + f - 1 / (4 * 10 ^ 9) \<le> s1" "s1 \<le> m + f + 1 / (4 * 10 ^ 9)"
    using fl_near [of "m + f"] b by (simp_all add: s1_def)
  have s2: "s1 + t - 1 / (4 * 10 ^ 9) \<le> s2" "s2 \<le> s1 + t + 1 / (4 * 10 ^ 9)"
    using fl_near [of "s1 + t"] b s1 by (simp_all add: s2_def)
  have s3: "s2 + u - 1 / (4 * 10 ^ 9) \<le> s3" "s3 \<le> s2 + u + 1 / (4 * 10 ^ 9)"
    using fl_near [of "s2 + u"] b s1 s2 by (simp_all add: s3_def)
  have s4: "s3 + e - 1 / (4 * 10 ^ 9) \<le> s4" "s4 \<le> s3 + e + 1 / (4 * 10 ^ 9)"
    using fl_near [of "s3 + e"] b s1 s2 s3 by (simp_all add: s4_def)
  have "breakdown_sum_d b = s4"
    by (simp add: breakdown_sum_d_def fadd_def s4_def s3_def s2_def s1_def m_def f_def t_def
        u_def e_def)
  with s1 s2 s3 s4 show ?thesis
    unfolding m_def [symmetric] f_def [symmetric] t_def [symmetric] u_def [symmetric]
      e_def [symmetric]
    by simp
qed

lemma total_d_near_sum:
  assumes "\<bar>materials (breakdown (summary r))\<bar> \<le> 100000"
    and "\<bar>manufacturing (breakdown (summary r))\<bar> \<le> 100000"
    and "\<bar>transport (breakdown (summary r))\<bar> \<le> 100000"
    and "\<bar>use (breakdown (summary r))\<bar> \<le> 100000"
    and "\<bar>newEol_d r s\<bar> \<le> 100000"
  shows "\<bar>round4_d (newTotal_d r s)
      - (materials (breakdown (summary r)) + manufacturing (breakdown (summary r))
         + transport (breakdown (summary r)) + use (breakdown (summary r))
         + newEol_d r s)\<bar> \<le> 1 / 20000 + 3 / 10 ^ 9"
proof -
  from assms have b: "- 100000 \<le> materials (breakdown (summary r))"
    "materials (breakdown (summary r)) \<le> 100000"
    "- 100000 \<le> manufacturing (breakdown (summary r))"
    "manufacturing (breakdown (summary r)) \<le> 100000"
    "- 100000 \<le> transport (breakdown (summary r))" "transport (breakdown (summary r)) \<le> 100000"
    "- 100000 \<le> use (breakdown (summary r))" "use (breakdown (summary r)) \<le> 100000"
    "- 100000 \<le> newEol_d r s" "newEol_d r s \<le> 100000"
    by (simp_all add: abs_le_iff)
  note n = newTotal_d_near [OF assms]
  from b n have "- 2097151 \<le> newTotal_d r s" and "newTotal_d r s \<le> 2097151"
    by simp_all
  from round4_d_near [OF this] n show ?thesis
    unfolding abs_le_iff by simp
qed

lemma eol_d_near:
  assumes "\<bar>newEol_d r s\<bar> \<le> 100000"
  shows "\<bar>round4_d (newEol_d r s) - newEol_d r s\<bar> \<le> 1 / 20000 + 7 / 10 ^ 10"
proof -
  from assms have "- 2097151 \<le> newEol_d r s" and "newEol_d r s \<le> 2097151"
    by simp_all
  from round4_d_near [OF this] show ?thesis
    unfolding abs_le_iff by simp
qed

subsection \<open>What the double-precision recalculation writes\<close>

lemma recalc_d_breakdown:
  "breakdown (summary (recalculateEOL_d r s)) =
     (breakdown (summary r))\<lparr>end_of_life := round4_d (newEol_d r s)\<rparr>"
  by (simp add: recalculateEOL_d_def newSummary_d_def)

lemma recalc_d_total: "total_co2e_kg (summary (recalculateEOL_d r s)) = round4_d (newTotal_d r s)"
  by (simp add: recalculateEOL_d_def newSummary_d_def)

lemma recalc_d_links:
  "links (recalculateEOL_d r s) =
     map (\<lambda>l. if source l = ''eol'' \<and> target l = ''total''
               then l\<lparr>link_value := round4_d \<bar>newEol_d r s\<bar>\<rparr> else l) (links r)"
  by (simp add: recalculateEOL_d_def newLinks_d_def Math_abs_def)

subsection \<open>The example results in double precision\<close>

lemma mix_best_case:
  "mix ''best_case'' = Mix [(''landfill'', 0.1), (''incineration'', 0.1), (''recycling'', 0.8)]"
  by (rule mix_predefined) (simp add: EOL_SCENARIOS_def)

lemma blendedFactor_d_baseline:
  "blendedFactor_d ''baseline'' = 7926335344172073 / 18014398509481984"
  by (simp add: blendedFactor_d_def blend_d_def mix_baseline method_factor_or_0_def
      EOL_METHOD_FACTORS_def fl_zero fadd_def fmul_def fdiv_def fl_values)

lemma blendedFactor_d_best_case:
  "blendedFactor_d ''best_case'' = - (810647932926689 / 9007199254740992)"
  by (simp add: blendedFactor_d_def blend_d_def mix_best_case method_factor_or_0_def
      EOL_METHOD_FACTORS_def fl_zero fadd_def fmul_def fdiv_def fl_values)

lemma four_weights:
  "per_material_weights four_result =
     [(''steel'', 0.0918), (''aluminum'', 0.13), (''abs'', 0.5049), (''glass'', 0.0383)]"
  by (simp add: four_result_def)

lemma four_breakdown:
  "breakdown (summary four_result) =
     \<lparr>materials = 2, manufacturing = 1, transport = 0.5, use = 0.5, end_of_life = 0.3366\<rparr>"
  by (simp add: four_result_def)

lemma four_links:
  "links four_result =
     [\<lparr>source = ''use'', target = ''eol'', link_value = 0.5\<rparr>,
      \<lparr>source = ''eol'', target = ''total'', link_value = 0.3366\<rparr>]"
  by (simp add: four_result_def)

lemma nine_weights: "per_material_weights nine_result = [(''steel'', 1)]"
  by (simp add: nine_result_def)


lemma light_breakdown:
  "breakdown (summary light_result) =
     \<lparr>materials = 0.01, manufacturing = 0.005, transport = 0.0025, use = 0.0025,
      end_of_life = 0.0022\<rparr>"
  by (simp add: light_result_def)

lemma four_newEol_d_best_case:
  "newEol_d four_result ''best_case'' = - (2480582674755669 / 36028797018963968)"
  by (simp add: newEol_d_def four_weights Object_values_def blendedFactor_d_best_case fl_zero fadd_def fmul_def fdiv_def fl_values)

lemma four_newTotal_d_best_case:
  "newTotal_d four_result ''best_case'' = 8852162837568763 / 2251799813685248"
  by (simp add: newTotal_d_def four_breakdown four_newEol_d_best_case fadd_def fmul_def fdiv_def fl_values)

lemma four_units_eol_best_case:
  "units4_d (newEol_d four_result ''best_case'') = - 688"
  by (simp add: units4_d_def Math_round_def four_newEol_d_best_case fadd_def fmul_def fdiv_def fl_values)

lemma four_units_total_best_case:
  "units4_d (newTotal_d four_result ''best_case'') = 39312"
  by (simp add: units4_d_def Math_round_def four_newTotal_d_best_case fadd_def fmul_def fdiv_def fl_values)

lemma four_units_edge_best_case:
  "units4_d \<bar>newEol_d four_result ''best_case''\<bar> = 689"
  by (simp add: units4_d_def Math_round_def four_newEol_d_best_case fadd_def fmul_def fdiv_def fl_values)

lemma nine_newEol_d_baseline:
  "newEol_d nine_result ''baseline'' = 7926335344172073 / 18014398509481984"
  by (simp add: newEol_d_def nine_weights Object_values_def blendedFactor_d_baseline fl_zero fadd_def fmul_def fdiv_def fl_values)


lemma nine_units_eol_baseline:
  "units4_d (newEol_d nine_result ''baseline'') = 4400"
  by (simp add: units4_d_def Math_round_def nine_newEol_d_baseline fadd_def fmul_def fdiv_def fl_values)


lemma nine_units_edge_baseline:
  "units4_d \<bar>newEol_d nine_result ''baseline''\<bar> = 4400"
  by (simp add: units4_d_def Math_round_def nine_newEol_d_baseline fadd_def fmul_def fdiv_def fl_values)

lemma nine_newEol_d_best_case:
  "newEol_d nine_result ''best_case'' = - (810647932926689 / 9007199254740992)"
  by (simp add: newEol_d_def nine_weights Object_values_def blendedFactor_d_best_case fl_zero fadd_def fmul_def fdiv_def fl_values)


lemma nine_units_eol_best_case:
  "units4_d (newEol_d nine_result ''best_case'') = - 900"
  by (simp add: units4_d_def Math_round_def nine_newEol_d_best_case fadd_def fmul_def fdiv_def fl_values)


lemma nine_units_edge_best_case:
  "units4_d \<bar>newEol_d nine_result ''best_case''\<bar> = 900"
  by (simp add: units4_d_def Math_round_def nine_newEol_d_best_case fadd_def fmul_def fdiv_def fl_values)

lemma example_newEol_d_baseline:
  "newEol_d example_result ''baseline'' = 7926335344172073 / 18014398509481984"
  by (simp add: newEol_d_def example_weights Object_values_def blendedFactor_d_baseline fl_zero fadd_def fmul_def fdiv_def fl_values)




lemma example_units_edge_baseline:
  "units4_d \<bar>newEol_d example_result ''baseline''\<bar> = 4400"
  by (simp add: units4_d_def Math_round_def example_newEol_d_baseline fadd_def fmul_def fdiv_def fl_values)

lemma example_newEol_d_best_case:
  "newEol_d example_result ''best_case'' = - (810647932926689 / 9007199254740992)"
  by (simp add: newEol_d_def example_weights Object_values_def blendedFactor_d_best_case fl_zero fadd_def fmul_def fdiv_def fl_values)




lemma example_units_edge_best_case:
  "units4_d \<bar>newEol_d example_result ''best_case''\<bar> = 900"
  by (simp add: units4_d_def Math_round_def example_newEol_d_best_case fadd_def fmul_def fdiv_def fl_values)

lemma light_newEol_d_best_case:
  "newEol_d light_result ''best_case'' = - (518814677073081 / 1152921504606846976)"
  by (simp add: newEol_d_def light_weights Object_values_def blendedFactor_d_best_case fl_zero fadd_def fmul_def fdiv_def fl_values)

lemma light_newTotal_d_best_case:
  "newTotal_d light_result ''best_case'' = 1408725963441491 / 72057594037927936"
  by (simp add: newTotal_d_def light_breakdown light_newEol_d_best_case fadd_def fmul_def fdiv_def fl_values)

lemma light_units_eol_best_case:
  "units4_d (newEol_d light_result ''best_case'') = - 4"
  by (simp add: units4_d_def Math_round_def light_newEol_d_best_case fadd_def fmul_def fdiv_def fl_values)

lemma light_units_total_best_case:
  "units4_d (newTotal_d light_result ''best_case'') = 195"
  by (simp add: units4_d_def Math_round_def light_newTotal_d_best_case fadd_def fmul_def fdiv_def fl_values)

lemma light_units_edge_best_case:
  "units4_d \<bar>newEol_d light_result ''best_case''\<bar> = 4"
  by (simp add: units4_d_def Math_round_def light_newEol_d_best_case fadd_def fmul_def fdiv_def fl_values)

lemma four_eol_d:
  "end_of_life (breakdown (summary (recalculateEOL_d four_result ''best_case''))) = fl (- 0.0688)"
  by (simp add: recalc_d_breakdown round4_d_units four_units_eol_best_case fdiv_def fl_values)

lemma four_edge_d:
  "map link_value (links (recalculateEOL_d four_result ''best_case'')) = [0.5, fl 0.0689]"
  by (simp add: recalc_d_links four_links round4_d_units four_units_edge_best_case fdiv_def
      fl_values)


lemma fl_0688_0689: "fl (- 0.0688) \<noteq> fl (- 0.0689) \<and> \<bar>fl (- 0.0688)\<bar> \<noteq> fl 0.0689"
  by (simp add: fl_values)

lemma four_newEol: "newEol four_result ''best_case'' = - 0.06885"
  by (simp add: newEol_sum four_weights Object_values_def blendedFactor_best_case)

lemma round4_four_negative: "round4 (- 0.06885) = - 0.0688"
  by (simp add: round4_floor)

lemma round4_four_positive: "round4 0.06885 = 0.0689"
  by (simp add: round4_floor)

lemma four_eol: "end_of_life (breakdown (summary (recalculateEOL four_result ''best_case''))) = - 0.0688"
  by (simp only: recalc_breakdown four_newEol round4_four_negative) simp

lemma four_edge:
  "map link_value (links (recalculateEOL four_result ''best_case'')) = [0.5, 0.0689]"
proof -
  have "\<bar>newEol four_result ''best_case''\<bar> = 0.06885"
    by (simp add: four_newEol)
  then have "round4 \<bar>newEol four_result ''best_case''\<bar> = 0.0689"
    by (simp only: round4_four_positive)
  then show ?thesis
    by (simp add: recalc_links four_links)
qed




subsection \<open>Where the two embeddings part\<close>

text \<open>
  For the light product under best_case the exact end-of-life value is the tie -0.00045 and
  the exact total the tie 0.01955. In doubles the end-of-life value is just above the tie
  and the total just below it, so the stored edge value and total are one unit lower than
  with exact arithmetic.
\<close>

lemma light_exact_values:
  "end_of_life (breakdown (summary (recalculateEOL light_result ''best_case''))) = - 0.0004 \<and>
   total_co2e_kg (summary (recalculateEOL light_result ''best_case'')) = 0.0196 \<and>
   map link_value (links (recalculateEOL light_result ''best_case'')) = [0.0005]"
proof -
  have a: "\<bar>newEol light_result ''best_case''\<bar> = 0.00045"
    by (simp add: light_newEol)
  have "newTotal light_result ''best_case'' = 0.01955"
    by (simp add: newTotal_def light_breakdown light_newEol)
  moreover have "round4 0.01955 = 0.0196"
    by (simp add: round4_floor)
  ultimately have t: "round4 (newTotal light_result ''best_case'') = 0.0196"
    by (simp only:)
  have e: "round4 (newEol light_result ''best_case'') = - 0.0004"
    by (simp only: light_newEol round4_tie_negative)
  have l: "round4 \<bar>newEol light_result ''best_case''\<bar> = 0.0005"
    by (simp only: a round4_tie_positive)
  show ?thesis
    by (simp add: recalc_breakdown recalc_total recalc_links light_links e t l)
qed

lemma light_d_values:
  "end_of_life (breakdown (summary (recalculateEOL_d light_result ''best_case''))) = fl (- 0.0004) \<and>
   total_co2e_kg (summary (recalculateEOL_d light_result ''best_case'')) = fl 0.0195 \<and>
   map link_value (links (recalculateEOL_d light_result ''best_case'')) = [fl 0.0004]"
  by (simp add: recalc_d_breakdown recalc_d_total recalc_d_links light_links round4_d_units
      light_units_eol_best_case light_units_total_best_case light_units_edge_best_case
      fdiv_def fl_values)

subsection \<open>A result of large magnitude\<close>

text \<open>
  At \<open>4 * 10^15\<close> neighbouring doubles are 0.5 apart, and at \<open>4 * 10^19\<close>, where the
  total scaled by 10000 lies, 8192 apart: scaling the total, rounding and dividing again
  moves it to the next double.
\<close>

lemma big_weights: "per_material_weights big_result = [(''steel'', 1)]"
  by (simp add: big_result_def)

lemma big_breakdown:
  "breakdown (summary big_result) =
     \<lparr>materials = 4000000000000000, manufacturing = 1, transport = 0.5, use = 0.5,
      end_of_life = 0.44\<rparr>"
  by (simp add: big_result_def)

lemma big_newEol_d_best_case:
  "newEol_d big_result ''best_case'' = - (810647932926689 / 9007199254740992)"
  by (simp add: newEol_d_def big_weights Object_values_def blendedFactor_d_best_case fl_zero
      fadd_def fmul_def fdiv_def fl_values)

lemma big_newTotal_d_best_case: "newTotal_d big_result ''best_case'' = 4000000000000002"
  by (simp add: newTotal_d_def big_breakdown big_newEol_d_best_case fadd_def fmul_def fdiv_def
      fl_values fl_big_values)

lemma big_units_eol_best_case: "units4_d (newEol_d big_result ''best_case'') = - 900"
  by (simp add: units4_d_def Math_round_def big_newEol_d_best_case fadd_def fmul_def fdiv_def
      fl_values)

lemma big_units_total_best_case:
  "units4_d (newTotal_d big_result ''best_case'') = 40000000000000016384"
  by (simp add: units4_d_def Math_round_def big_newTotal_d_best_case fadd_def fmul_def fdiv_def
      fl_big_values)

lemma big_d_values:
  "total_co2e_kg (summary (recalculateEOL_d big_result ''best_case'')) = 4000000000000001.5 \<and>
   breakdown (summary (recalculateEOL_d big_result ''best_case'')) =
     \<lparr>materials = 4000000000000000, manufacturing = 1, transport = 0.5, use = 0.5,
      end_of_life = fl (- 0.09)\<rparr>"
  by (simp add: recalc_d_breakdown recalc_d_total round4_d_units big_units_eol_best_case
      big_units_total_best_case big_breakdown fdiv_def fl_values fl_big_values)

lemma big_sum_d:
  "breakdown_sum_d \<lparr>materials = 4000000000000000, manufacturing = 1, transport = 0.5, use = 0.5,
      end_of_life = fl (- 0.09)\<rparr> = 4000000000000002"
  by (simp add: breakdown_sum_d_def fadd_def fl_values fl_big_values)

lemma fl_009_bounds: "- 0.09 - 1 / 10 ^ 15 < fl (- 0.09) \<and> fl (- 0.09) < - 0.09 + 1 / 10 ^ 15"
  by (simp add: fl_values)

subsection \<open>The specification's formula in doubles\<close>







section \<open>The claims\<close>




text \<open>
  C2. For every result and every scenario selector, the recalculation returns the input's
  materials, manufacturing, transport and use values, weight, category, material details,
  per-material weights and nodes unchanged; the links keep their number, order, sources and
  targets, and every link other than the one from \<open>eol\<close> to \<open>total\<close> keeps its value.
\<close>

theorem recalculateEOL_frame:
  "materials (breakdown (summary (recalculateEOL r s))) = materials (breakdown (summary r)) \<and>
   manufacturing (breakdown (summary (recalculateEOL r s)))
     = manufacturing (breakdown (summary r)) \<and>
   transport (breakdown (summary (recalculateEOL r s))) = transport (breakdown (summary r)) \<and>
   use (breakdown (summary (recalculateEOL r s))) = use (breakdown (summary r)) \<and>
   weight_kg (summary (recalculateEOL r s)) = weight_kg (summary r) \<and>
   category (summary (recalculateEOL r s)) = category (summary r) \<and>
   material_details (recalculateEOL r s) = material_details r \<and>
   per_material_weights (recalculateEOL r s) = per_material_weights r \<and>
   nodes (recalculateEOL r s) = nodes r \<and>
   list_all2
     (\<lambda>l' l. source l' = source l \<and> target l' = target l \<and>
        (\<not> (source l = ''eol'' \<and> target l = ''total'') \<longrightarrow> link_value l' = link_value l))
     (links (recalculateEOL r s)) (links r)"
proof -
  have "list_all2
     (\<lambda>l' l. source l' = source l \<and> target l' = target l \<and>
        (\<not> (source l = ''eol'' \<and> target l = ''total'') \<longrightarrow> link_value l' = link_value l))
     (links (recalculateEOL r s)) (links r)"
    by (simp add: recalc_links list_all2_map1 list_all2_same)
  then show ?thesis
    by (simp add: recalc_breakdown) (simp add: recalculateEOL_def newSummary_def)
qed

theorem recalculateEOL_frame_witness:
  "\<not> (source (links example_result ! 0) = ''eol'' \<and> target (links example_result ! 0) = ''total'') \<and>
   link_value (links (recalculateEOL example_result ''best_case'') ! 0)
     = link_value (links example_result ! 0) \<and>
   link_value (links (recalculateEOL example_result ''best_case'') ! 0) = 0.5 \<and>
   length (links (recalculateEOL example_result ''best_case'')) = 2 \<and>
   materials (breakdown (summary (recalculateEOL example_result ''best_case''))) = 2"
proof -
  have n: "\<not> (source (links example_result ! 0) = ''eol''
      \<and> target (links example_result ! 0) = ''total'')"
    by (simp add: example_result_def)
  have l: "length (links example_result) = 2"
    by (simp add: example_result_def)
  have v: "link_value (links example_result ! 0) = 0.5"
    by (simp add: example_result_def)
  have m: "materials (breakdown (summary example_result)) = 2"
    by (simp add: example_result_def)
  note f = recalculateEOL_frame [of example_result "''best_case''"]
  from f have la: "list_all2
     (\<lambda>l' l. source l' = source l \<and> target l' = target l \<and>
        (\<not> (source l = ''eol'' \<and> target l = ''total'') \<longrightarrow> link_value l' = link_value l))
     (links (recalculateEOL example_result ''best_case'')) (links example_result)"
    by blast
  from la have len: "length (links (recalculateEOL example_result ''best_case'')) = 2"
    by (simp add: list_all2_lengthD l)
  from list_all2_nthD2 [OF la, of 0] n l
  have "link_value (links (recalculateEOL example_result ''best_case'') ! 0)
     = link_value (links example_result ! 0)"
    by simp
  with n len v m f show ?thesis
    by simp
qed






text \<open>
  C5. Recalculating twice in a row with the same scenario selector gives, in every field,
  the result of recalculating once.
\<close>

theorem recalculateEOL_idempotent:
  "recalculateEOL (recalculateEOL r s) s = recalculateEOL r s"
proof -
  have "recalculateEOL (recalculateEOL r s) s =
      (recalculateEOL r s)\<lparr>links := newLinks r s, summary := newSummary r s\<rparr>"
    by (simp add: recalculateEOL_def [of "recalculateEOL r s"] newLinks_recalc newSummary_recalc)
  also have "\<dots> = recalculateEOL r s"
    by (simp add: recalculateEOL_def)
  finally show ?thesis .
qed

text \<open>
  C6 (as stated). The stored total would equal the sum of the five stored phase values to
  within rounding tolerance, for every result. For the specification's example with a
  materials phase of \<open>4 * 10^15\<close>, under best_case, the source stores the total
  4000000000000001.5 next to the phase values 4000000000000000, 1, 0.5, 0.5 and -0.09:
  their sum is more than 0.4 above the stored total, and their sum in doubles,
  4000000000000002, is 0.5 above it.
\<close>

theorem total_far_from_phase_sum:
  "total_co2e_kg (summary (recalculateEOL_d big_result ''best_case'')) = 4000000000000001.5 \<and>
   breakdown (summary (recalculateEOL_d big_result ''best_case'')) =
     \<lparr>materials = 4000000000000000, manufacturing = 1, transport = 0.5, use = 0.5,
      end_of_life = fl (- 0.09)\<rparr> \<and>
   materials (breakdown (summary (recalculateEOL_d big_result ''best_case'')))
     + manufacturing (breakdown (summary (recalculateEOL_d big_result ''best_case'')))
     + transport (breakdown (summary (recalculateEOL_d big_result ''best_case'')))
     + use (breakdown (summary (recalculateEOL_d big_result ''best_case'')))
     + end_of_life (breakdown (summary (recalculateEOL_d big_result ''best_case'')))
     - total_co2e_kg (summary (recalculateEOL_d big_result ''best_case'')) > 0.4 \<and>
   breakdown_sum_d (breakdown (summary (recalculateEOL_d big_result ''best_case'')))
     - total_co2e_kg (summary (recalculateEOL_d big_result ''best_case'')) = 0.5"
proof -
  note v = big_d_values
  from v have t: "total_co2e_kg (summary (recalculateEOL_d big_result ''best_case''))
      = 4000000000000001.5"
    by (rule conjunct1)
  from v have b: "breakdown (summary (recalculateEOL_d big_result ''best_case'')) =
     \<lparr>materials = 4000000000000000, manufacturing = 1, transport = 0.5, use = 0.5,
      end_of_life = fl (- 0.09)\<rparr>"
    by (rule conjunct2)
  have s: "breakdown_sum_d (breakdown (summary (recalculateEOL_d big_result ''best_case'')))
      = 4000000000000002"
    by (simp only: b big_sum_d)
  have "materials (breakdown (summary (recalculateEOL_d big_result ''best_case'')))
     + manufacturing (breakdown (summary (recalculateEOL_d big_result ''best_case'')))
     + transport (breakdown (summary (recalculateEOL_d big_result ''best_case'')))
     + use (breakdown (summary (recalculateEOL_d big_result ''best_case'')))
     + end_of_life (breakdown (summary (recalculateEOL_d big_result ''best_case'')))
     = 4000000000000002 + fl (- 0.09)"
    by (simp add: b)
  with fl_009_bounds t have g: "materials (breakdown (summary (recalculateEOL_d big_result ''best_case'')))
     + manufacturing (breakdown (summary (recalculateEOL_d big_result ''best_case'')))
     + transport (breakdown (summary (recalculateEOL_d big_result ''best_case'')))
     + use (breakdown (summary (recalculateEOL_d big_result ''best_case'')))
     + end_of_life (breakdown (summary (recalculateEOL_d big_result ''best_case'')))
     - total_co2e_kg (summary (recalculateEOL_d big_result ''best_case'')) > 0.4"
    by simp
  have "breakdown_sum_d (breakdown (summary (recalculateEOL_d big_result ''best_case'')))
     - total_co2e_kg (summary (recalculateEOL_d big_result ''best_case'')) = 0.5"
    by (simp add: s t)
  with t b g show ?thesis
    by blast
qed

text \<open>
  C6 (amended). For every result whose materials, manufacturing, transport and use values
  and whose new end-of-life value are at most 100000 in magnitude, and for every scenario
  selector, the stored total differs from the sum of the five stored phase values by at
  most one unit of the fourth decimal plus 0.00000001, whether that sum is taken exactly or
  in doubles from left to right.
\<close>

theorem recalculateEOL_d_total_consistent:
  assumes "\<bar>materials (breakdown (summary r))\<bar> \<le> 100000"
    and "\<bar>manufacturing (breakdown (summary r))\<bar> \<le> 100000"
    and "\<bar>transport (breakdown (summary r))\<bar> \<le> 100000"
    and "\<bar>use (breakdown (summary r))\<bar> \<le> 100000"
    and "\<bar>newEol_d r s\<bar> \<le> 100000"
  shows
    "\<bar>total_co2e_kg (summary (recalculateEOL_d r s))
       - (materials (breakdown (summary (recalculateEOL_d r s)))
          + manufacturing (breakdown (summary (recalculateEOL_d r s)))
          + transport (breakdown (summary (recalculateEOL_d r s)))
          + use (breakdown (summary (recalculateEOL_d r s)))
          + end_of_life (breakdown (summary (recalculateEOL_d r s))))\<bar>
       \<le> 1 / 10000 + 1 / 10 ^ 8 \<and>
     \<bar>total_co2e_kg (summary (recalculateEOL_d r s))
       - breakdown_sum_d (breakdown (summary (recalculateEOL_d r s)))\<bar>
       \<le> 1 / 10000 + 1 / 10 ^ 8"
proof -
  define b where "b = (breakdown (summary r))\<lparr>end_of_life := round4_d (newEol_d r s)\<rparr>"
  note t = total_d_near_sum [OF assms]
  note e = eol_d_near [OF assms(5)]
  from e assms(5) have "\<bar>end_of_life b\<bar> \<le> 100001"
    unfolding abs_le_iff by (simp add: b_def)
  moreover have "\<bar>materials b\<bar> \<le> 100000" "\<bar>manufacturing b\<bar> \<le> 100000"
    "\<bar>transport b\<bar> \<le> 100000" "\<bar>use b\<bar> \<le> 100000"
    using assms by (simp_all add: b_def)
  ultimately have js: "materials b + manufacturing b + transport b + use b + end_of_life b
      - 1 / 10 ^ 9 \<le> breakdown_sum_d b \<and>
    breakdown_sum_d b
      \<le> materials b + manufacturing b + transport b + use b + end_of_life b + 1 / 10 ^ 9"
    by (intro breakdown_sum_d_near)
  have f: "materials b = materials (breakdown (summary r))"
    "manufacturing b = manufacturing (breakdown (summary r))"
    "transport b = transport (breakdown (summary r))"
    "use b = use (breakdown (summary r))"
    "end_of_life b = round4_d (newEol_d r s)"
    by (simp_all add: b_def)
  have "\<bar>round4_d (newTotal_d r s)
       - (materials b + manufacturing b + transport b + use b + end_of_life b)\<bar>
       \<le> 1 / 10000 + 1 / 10 ^ 8"
    using t e unfolding f abs_le_iff by simp
  moreover from js have
    "\<bar>round4_d (newTotal_d r s) - breakdown_sum_d b\<bar> \<le> 1 / 10000 + 1 / 10 ^ 8"
    using t e unfolding f abs_le_iff by simp
  ultimately show ?thesis
    by (simp only: recalc_d_total recalc_d_breakdown b_def [symmetric]) 
qed

theorem recalculateEOL_d_total_consistent_witness:
  "\<bar>materials (breakdown (summary example_result))\<bar> \<le> 100000 \<and>
   \<bar>manufacturing (breakdown (summary example_result))\<bar> \<le> 100000 \<and>
   \<bar>transport (breakdown (summary example_result))\<bar> \<le> 100000 \<and>
   \<bar>use (breakdown (summary example_result))\<bar> \<le> 100000 \<and>
   \<bar>newEol_d example_result ''best_case''\<bar> \<le> 100000 \<and>
   \<bar>total_co2e_kg (summary (recalculateEOL_d example_result ''best_case''))
      - (materials (breakdown (summary (recalculateEOL_d example_result ''best_case'')))
         + manufacturing (breakdown (summary (recalculateEOL_d example_result ''best_case'')))
         + transport (breakdown (summary (recalculateEOL_d example_result ''best_case'')))
         + use (breakdown (summary (recalculateEOL_d example_result ''best_case'')))
         + end_of_life (breakdown (summary (recalculateEOL_d example_result ''best_case''))))\<bar>
     \<le> 1 / 10000 + 1 / 10 ^ 8 \<and>
   \<bar>total_co2e_kg (summary (recalculateEOL_d example_result ''best_case''))
      - breakdown_sum_d (breakdown (summary (recalculateEOL_d example_result ''best_case'')))\<bar>
     \<le> 1 / 10000 + 1 / 10 ^ 8"
proof -
  have b: "\<bar>materials (breakdown (summary example_result))\<bar> \<le> 100000"
    "\<bar>manufacturing (breakdown (summary example_result))\<bar> \<le> 100000"
    "\<bar>transport (breakdown (summary example_result))\<bar> \<le> 100000"
    "\<bar>use (breakdown (summary example_result))\<bar> \<le> 100000"
    by (simp_all add: example_breakdown)
  have e: "\<bar>newEol_d example_result ''best_case''\<bar> \<le> 100000"
    by (simp add: example_newEol_d_best_case)
  from recalculateEOL_d_total_consistent [OF b e] b e show ?thesis
    by blast
qed

text \<open>
  C7 (evaluation at the failing input). For the four-material product under best_case the
  end-of-life value times 10000 is the negative tie -688.5, in doubles as with exact
  arithmetic: the edge from \<open>eol\<close> to \<open>total\<close> gets the value 0.0689, while the summary's
  end-of-life value is -0.0688, of magnitude 0.0688.
\<close>

theorem edge_value_differs_from_abs_eol:
  "map link_value (links (recalculateEOL_d four_result ''best_case'')) = [0.5, fl 0.0689] \<and>
   end_of_life (breakdown (summary (recalculateEOL_d four_result ''best_case''))) = fl (- 0.0688) \<and>
   \<bar>fl (- 0.0688)\<bar> \<noteq> fl 0.0689 \<and>
   map link_value (links (recalculateEOL four_result ''best_case'')) = [0.5, 0.0689] \<and>
   end_of_life (breakdown (summary (recalculateEOL four_result ''best_case''))) = - 0.0688"
  using four_edge_d four_eol_d fl_0688_0689 four_edge four_eol by simp

text \<open>
  C8 (evaluation at the failing input). The selector \<open>constructor\<close> is not a predefined
  scenario name, yet it does not read as \<open>undefined\<close>: the read yields the inherited
  \<open>Object.prototype.constructor\<close>, the fallback to baseline is not taken, and the entries
  are empty. For the example product the end-of-life value is 0, the total 4 and the edge
  value 0, where the baseline scenario gives 0.44, 4.44 and 0.44.
\<close>

theorem inherited_selector_not_baseline:
  "map_of EOL_SCENARIOS ''constructor'' = None \<and>
   mix ''constructor'' = Builtin \<and>
   end_of_life (breakdown (summary (recalculateEOL example_result ''constructor''))) = 0 \<and>
   total_co2e_kg (summary (recalculateEOL example_result ''constructor'')) = 4 \<and>
   map link_value (links (recalculateEOL example_result ''constructor'')) = [0.5, 0] \<and>
   end_of_life (breakdown (summary (recalculateEOL example_result ''baseline''))) = 0.44 \<and>
   total_co2e_kg (summary (recalculateEOL example_result ''baseline'')) = 4.44 \<and>
   map link_value (links (recalculateEOL example_result ''baseline'')) = [0.5, 0.44]"
proof -
  have p: "''constructor'' \<in> set Object_prototype"
    by (simp add: Object_prototype_def)
  then have n: "map_of EOL_SCENARIOS ''constructor'' = None"
    by (rule prototype_not_scenario)
  from n p have m: "mix ''constructor'' = Builtin"
    by (rule mix_inherited)
  have e0: "newEol example_result ''constructor'' = 0"
    using p by (rule example_newEol_inherited)
  have t0: "newTotal example_result ''constructor'' = 4"
    by (simp add: newTotal_def example_breakdown e0)
  have t1: "newTotal example_result ''baseline'' = 4.44"
    by (simp add: newTotal_def example_breakdown example_newEol_baseline)
  have a0: "\<bar>newEol example_result ''constructor''\<bar> = 0"
    by (simp add: e0)
  have a1: "\<bar>newEol example_result ''baseline''\<bar> = 0.44"
    by (simp add: example_newEol_baseline)
  have l0: "map link_value (links (recalculateEOL example_result ''constructor'')) = [0.5, 0]"
    unfolding recalc_links a0 round4_0 by (simp add: example_links)
  have l1: "map link_value (links (recalculateEOL example_result ''baseline'')) = [0.5, 0.44]"
    unfolding recalc_links a1 round4_044_0 by (simp add: example_links)
  have b0: "end_of_life (breakdown (summary (recalculateEOL example_result ''constructor''))) = 0"
    unfolding recalc_breakdown e0 round4_0 by simp
  have b1: "end_of_life (breakdown (summary (recalculateEOL example_result ''baseline''))) = 0.44"
    unfolding recalc_breakdown example_newEol_baseline round4_044_0 by simp
  have c0: "total_co2e_kg (summary (recalculateEOL example_result ''constructor'')) = 4"
    unfolding recalc_total t0 round4_4 by simp
  have c1: "total_co2e_kg (summary (recalculateEOL example_result ''baseline'')) = 4.44"
    unfolding recalc_total t1 round4_444 by simp
  from n m b0 c0 l0 b1 c1 l1 show ?thesis
    by blast
qed

text \<open>
  C9. The client's constant tables are the specification's: as finite maps, the method
  factors are landfill 0.5, incineration 1.0, recycling -0.3, and the scenario table maps
  baseline, best_case and worst_case (and no other name) to the specification's mixes;
  the fractions of each predefined scenario sum to exactly 1.
\<close>

theorem constant_tables:
  "map_of EOL_METHOD_FACTORS = spec_method_factor \<and>
   (\<lambda>s. map_option map_of (map_of EOL_SCENARIOS s)) = spec_scenario \<and>
   map fst EOL_SCENARIOS = [''baseline'', ''best_case'', ''worst_case''] \<and>
   map (\<lambda>(s, m). sum_list (Object_values m)) EOL_SCENARIOS = [1, 1, 1]"
proof -
  have a: "map_of EOL_METHOD_FACTORS = spec_method_factor"
    by (rule ext) (simp add: EOL_METHOD_FACTORS_def spec_method_factor_def)
  have b: "(\<lambda>s. map_option map_of (map_of EOL_SCENARIOS s)) = spec_scenario"
    by (rule ext) (auto simp add: EOL_SCENARIOS_def spec_scenario_def fun_eq_iff)
  have c: "map fst EOL_SCENARIOS = [''baseline'', ''best_case'', ''worst_case'']"
    by (simp add: EOL_SCENARIOS_def)
  have d: "map (\<lambda>(s, m). sum_list (Object_values m)) EOL_SCENARIOS = [1, 1, 1]"
    by (simp add: EOL_SCENARIOS_def Object_values_def)
  from a b c d show ?thesis by blast
qed

text \<open>
  C10 (evaluation at the failing input). For the selector \<open>toString\<close>, not a predefined
  scenario name, the result records the name \<open>toString\<close>, but its numbers are not computed
  from the baseline mix: the entries blended are empty, and the exact end-of-life value of
  the example product is 0 where the baseline mix gives 0.44.
\<close>

theorem inherited_selector_recorded_name:
  "map_of EOL_SCENARIOS ''toString'' = None \<and>
   eol_scenario (summary (recalculateEOL example_result ''toString'')) = ''toString'' \<and>
   Object_entries (mix ''toString'') = [] \<and>
   Object_entries (mix ''baseline'')
     = [(''landfill'', 0.6), (''incineration'', 0.2), (''recycling'', 0.2)] \<and>
   newEol example_result ''toString'' = 0 \<and>
   newEol example_result ''baseline'' = 0.44"
proof -
  have p: "''toString'' \<in> set Object_prototype"
    by (simp add: Object_prototype_def)
  then have n: "map_of EOL_SCENARIOS ''toString'' = None"
    by (rule prototype_not_scenario)
  from n p have "mix ''toString'' = Builtin"
    by (rule mix_inherited)
  then have m: "Object_entries (mix ''toString'') = []"
    by simp
  have b: "Object_entries (mix ''baseline'')
     = [(''landfill'', 0.6), (''incineration'', 0.2), (''recycling'', 0.2)]"
    by (simp add: mix_baseline)
  from n m b recalculateEOL_scenario_name [of example_result "''toString''"]
    example_newEol_inherited [OF p] example_newEol_baseline
  show ?thesis
    by blast
qed

end
